theory Spec2Isabelle
  imports Complex_Main "HOL-Library.AList"
begin

section \<open>Strings of the runtime\<close>

text \<open>
  The program is TypeScript. Its strings are modelled by \<^typ>\<open>string\<close>, read as ASCII
  text: the functions below are the string methods the sources call, on that alphabet.
  White space is the ASCII part of what \<^verbatim>\<open>\s\<close> and \<^verbatim>\<open>trim()\<close> recognise; the case
  conversions move the 26 letters and leave every other character alone.
\<close>

definition isDigit :: "char \<Rightarrow> bool" where
  "isDigit c = (c \<in> set ''0123456789'')"

definition isSpace :: "char \<Rightarrow> bool" where
  "isSpace c = (c \<in> {CHR 0x09, CHR 0x0A, CHR 0x0B, CHR 0x0C, CHR 0x0D, CHR '' ''})"

definition isLetter :: "char \<Rightarrow> bool" where
  "isLetter c = (c \<in> set ''abcdefghijklmnopqrstuvwxyzABCDEFGHIJKLMNOPQRSTUVWXYZ'')"

definition trimStart :: "string \<Rightarrow> string" where
  "trimStart s = dropWhile isSpace s"

definition trimEnd :: "string \<Rightarrow> string" where
  "trimEnd s = rev (dropWhile isSpace (rev s))"

definition trim :: "string \<Rightarrow> string" where
  "trim s = trimEnd (trimStart s)"

definition upperChar :: "char \<Rightarrow> char" where
  "upperChar c =
     (case map_of (zip ''abcdefghijklmnopqrstuvwxyz'' ''ABCDEFGHIJKLMNOPQRSTUVWXYZ'') c of
        Some u \<Rightarrow> u | None \<Rightarrow> c)"

definition lowerChar :: "char \<Rightarrow> char" where
  "lowerChar c =
     (case map_of (zip ''ABCDEFGHIJKLMNOPQRSTUVWXYZ'' ''abcdefghijklmnopqrstuvwxyz'') c of
        Some l \<Rightarrow> l | None \<Rightarrow> c)"

definition toUpperCase :: "string \<Rightarrow> string" where
  "toUpperCase s = map upperChar s"

definition toLowerCase :: "string \<Rightarrow> string" where
  "toLowerCase s = map lowerChar s"

text \<open>\<^verbatim>\<open>s.startsWith(p)\<close> and \<^verbatim>\<open>s.includes(p)\<close>.\<close>

fun startsWith :: "string \<Rightarrow> string \<Rightarrow> bool" where
  "startsWith s [] = True"
| "startsWith [] (p # ps) = False"
| "startsWith (c # cs) (p # ps) = (c = p \<and> startsWith cs ps)"

fun includesStr :: "string \<Rightarrow> string \<Rightarrow> bool" where
  "includesStr [] p = (p = [])"
| "includesStr (c # cs) p = (startsWith (c # cs) p \<or> includesStr cs p)"

text \<open>\<^verbatim>\<open>s.split(sep)\<close> for a one-character separator: the empty string gives one empty field.\<close>

fun splitOn :: "char \<Rightarrow> string \<Rightarrow> string list" where
  "splitOn sep [] = [[]]"
| "splitOn sep (c # cs) =
     (if c = sep then [] # splitOn sep cs
      else (case splitOn sep cs of f # fs \<Rightarrow> (c # f) # fs | [] \<Rightarrow> [[c]]))"

text \<open>\<^verbatim>\<open>parts.join(sep)\<close>.\<close>

fun join :: "string \<Rightarrow> string list \<Rightarrow> string" where
  "join sep [] = []"
| "join sep [x] = x"
| "join sep (x # y # ys) = x @ sep @ join sep (y # ys)"

text \<open>\<^verbatim>\<open>s.padStart(n, c)\<close> for a one-character filler.\<close>

definition padStart :: "nat \<Rightarrow> char \<Rightarrow> string \<Rightarrow> string" where
  "padStart n c s = replicate (n - length s) c @ s"

text \<open>
  \<^verbatim>\<open>s.replace(pat, '')\<close> for a string pattern: the first occurrence of the pattern is
  removed, and a string without one is returned as it is.
\<close>

fun removeFirst :: "string \<Rightarrow> string \<Rightarrow> string" where
  "removeFirst [] p = []"
| "removeFirst (c # cs) p =
     (if startsWith (c # cs) p then drop (length p) (c # cs) else c # removeFirst cs p)"

section \<open>Dates as text: \<^verbatim>\<open>parseSaleDate\<close> (scraper/parcel-details.ts)\<close>

text \<open>
  The pattern \<^verbatim>\<open>/^(\d{1,2})\/(\d{1,2})\/(\d{4})$/\<close>, as the scanner a backtracking matcher
  amounts to: a digit run can only end at a character that is not a digit, so each group
  is the whole run, and its length decides the match. The result is the three groups.
\<close>

definition matchUsDate :: "string \<Rightarrow> (string \<times> string \<times> string) option" where
  "matchUsDate s =
     (let month = takeWhile isDigit s; r1 = dropWhile isDigit s in
      if length month \<in> {1, 2} \<and> startsWith r1 ''/'' then
        (let day = takeWhile isDigit (tl r1); r2 = dropWhile isDigit (tl r1) in
         if length day \<in> {1, 2} \<and> startsWith r2 ''/'' then
           (let year = tl r2 in
            if length year = 4 \<and> list_all isDigit year then Some (month, day, year) else None)
         else None)
      else None)"

text \<open>The pattern \<^verbatim>\<open>/^\d{4}-\d{2}-\d{2}$/\<close>.\<close>

definition isIsoDate :: "string \<Rightarrow> bool" where
  "isIsoDate s =
     (length s = 10 \<and> list_all isDigit (take 4 s) \<and> s ! 4 = CHR ''-'' \<and>
      list_all isDigit (take 2 (drop 5 s)) \<and> s ! 7 = CHR ''-'' \<and>
      list_all isDigit (drop 8 s))"

definition parseSaleDate :: "string \<Rightarrow> string" where
  "parseSaleDate dateStr =
     (if dateStr = [] then []
      else (case matchUsDate dateStr of
              Some (month, day, year) \<Rightarrow>
                year @ ''-'' @ padStart 2 (CHR ''0'') month @ ''-'' @ padStart 2 (CHR ''0'') day
            | None \<Rightarrow> if isIsoDate dateStr then dateStr else dateStr))"

text \<open>
  The shape \<open>M/D/YYYY\<close> or \<open>MM/DD/YYYY\<close> in the specification's words: one or two
  digits, a slash, one or two digits, a slash, four digits.
\<close>

definition usDateParts :: "string \<Rightarrow> string \<Rightarrow> string \<Rightarrow> bool" where
  "usDateParts m d y =
     (list_all isDigit m \<and> length m \<in> {1, 2} \<and> list_all isDigit d \<and> length d \<in> {1, 2} \<and>
      list_all isDigit y \<and> length y = 4)"

definition usDateShape :: "string \<Rightarrow> bool" where
  "usDateShape s = (\<exists>m d y. usDateParts m d y \<and> s = m @ ''/'' @ d @ ''/'' @ y)"

section \<open>Numbers of the runtime\<close>

text \<open>
  A number of the program is \<open>NaN\<close>, an infinity or a finite value. Finite values are
  kept as exact rationals: the model does not round to the 64-bit binary format, which
  agrees with the runtime on every integer below \<open>2^53\<close> and on every decimal of at most
  15 significant digits (sale prices in dollars are such numbers). The two zeros are one
  value. Where a numeric operation of the runtime receives \<^verbatim>\<open>undefined\<close> it computes with
  \<open>NaN\<close>, so \<open>NaN\<close> stands for it.
\<close>

datatype jsnum = NaN | NegInf | PosInf | Fin rat

fun isNaN :: "jsnum \<Rightarrow> bool" where
  "isNaN NaN = True"
| "isNaN _ = False"

text \<open>\<^verbatim>\<open>a < b\<close>: false as soon as one side is \<open>NaN\<close>.\<close>

fun js_lt :: "jsnum \<Rightarrow> jsnum \<Rightarrow> bool" where
  "js_lt NaN _ = False"
| "js_lt _ NaN = False"
| "js_lt (Fin a) (Fin b) = (a < b)"
| "js_lt NegInf NegInf = False"
| "js_lt NegInf _ = True"
| "js_lt _ NegInf = False"
| "js_lt PosInf _ = False"
| "js_lt _ PosInf = True"


fun js_neg :: "jsnum \<Rightarrow> jsnum" where
  "js_neg NaN = NaN"
| "js_neg NegInf = PosInf"
| "js_neg PosInf = NegInf"
| "js_neg (Fin a) = Fin (- a)"

fun js_add :: "jsnum \<Rightarrow> jsnum \<Rightarrow> jsnum" where
  "js_add NaN _ = NaN"
| "js_add _ NaN = NaN"
| "js_add (Fin a) (Fin b) = Fin (a + b)"
| "js_add PosInf NegInf = NaN"
| "js_add NegInf PosInf = NaN"
| "js_add PosInf _ = PosInf"
| "js_add NegInf _ = NegInf"
| "js_add _ PosInf = PosInf"
| "js_add _ NegInf = NegInf"

definition js_sub :: "jsnum \<Rightarrow> jsnum \<Rightarrow> jsnum" where
  "js_sub a b = js_add a (js_neg b)"


subsection \<open>Reading numbers from text\<close>

definition digitVal :: "char \<Rightarrow> nat" where
  "digitVal c = of_char c - 48"

definition digitsVal :: "string \<Rightarrow> nat" where
  "digitsVal ds = foldl (\<lambda>a c. 10 * a + digitVal c) 0 ds"

definition pow10 :: "int \<Rightarrow> rat" where
  "pow10 e = (if 0 \<le> e then 10 ^ nat e else 1 / 10 ^ nat (- e))"

text \<open>
  The grammar \<open>StrDecimalLiteral\<close> of the language standard, which \<^verbatim>\<open>parseFloat\<close> and
  \<^verbatim>\<open>Number\<close> read: an optional sign, then \<open>Infinity\<close> or decimal digits with an
  optional fraction and an optional exponent. Each scanner returns the value of the
  longest prefix of its input that the grammar derives, and the rest of the input.
\<close>

definition scanExponent :: "string \<Rightarrow> int \<times> string" where
  "scanExponent s =
     (case s of
        [] \<Rightarrow> (0, s)
      | c # r \<Rightarrow>
          if c = CHR ''e'' \<or> c = CHR ''E'' then
            (let (sgn, r') =
                   (case r of
                      [] \<Rightarrow> (1, r)
                    | x # t \<Rightarrow> if x = CHR ''+'' then (1, t)
                               else if x = CHR ''-'' then (- 1, t) else (1, r));
                 ds = takeWhile isDigit r'
             in if ds = [] then (0, s) else (sgn * int (digitsVal ds), dropWhile isDigit r'))
          else (0, s))"

definition scanUnsigned :: "string \<Rightarrow> (jsnum \<times> string) option" where
  "scanUnsigned s =
     (if startsWith s ''Infinity'' then Some (PosInf, drop 8 s)
      else
        (let ip = takeWhile isDigit s; r1 = dropWhile isDigit s in
         if startsWith r1 ''.'' then
           (let fp = takeWhile isDigit (tl r1); r2 = dropWhile isDigit (tl r1) in
            if ip = [] \<and> fp = [] then None
            else (let (e, r3) = scanExponent r2
                  in Some (Fin (of_nat (digitsVal (ip @ fp)) * pow10 (e - int (length fp))), r3)))
         else if ip = [] then None
         else (let (e, r3) = scanExponent r1
               in Some (Fin (of_nat (digitsVal ip) * pow10 e), r3))))"

definition scanDecimal :: "string \<Rightarrow> (jsnum \<times> string) option" where
  "scanDecimal s =
     (if startsWith s ''+'' then scanUnsigned (tl s)
      else if startsWith s ''-'' then
        (case scanUnsigned (tl s) of None \<Rightarrow> None | Some (v, r) \<Rightarrow> Some (js_neg v, r))
      else scanUnsigned s)"

text \<open>\<^verbatim>\<open>parseFloat(s)\<close>: leading white space is skipped, and what follows the number is ignored.\<close>

definition parseFloat :: "string \<Rightarrow> jsnum" where
  "parseFloat s = (case scanDecimal (trimStart s) of None \<Rightarrow> NaN | Some (v, r) \<Rightarrow> v)"

text \<open>
  \<^verbatim>\<open>Number(s)\<close>: white space around the text is dropped; the empty text is 0; a text
  \<^verbatim>\<open>0x..\<close>, \<^verbatim>\<open>0o..\<close> or \<^verbatim>\<open>0b..\<close> is an integer in base 16, 8 or 2; any other text must be a
  decimal literal as a whole.
\<close>

definition radixDigit :: "nat \<Rightarrow> char \<Rightarrow> nat option" where
  "radixDigit b c =
     (case map_of (zip ''0123456789abcdef'' [0 ..< 16]) (lowerChar c) of
        None \<Rightarrow> None
      | Some v \<Rightarrow> if v < b then Some v else None)"

fun radixVal :: "nat \<Rightarrow> nat \<Rightarrow> string \<Rightarrow> nat option" where
  "radixVal b acc [] = Some acc"
| "radixVal b acc (c # cs) =
     (case radixDigit b c of None \<Rightarrow> None | Some v \<Rightarrow> radixVal b (b * acc + v) cs)"

definition radixPrefix :: "string \<Rightarrow> nat option" where
  "radixPrefix t =
     (if startsWith t ''0x'' \<or> startsWith t ''0X'' then Some 16
      else if startsWith t ''0o'' \<or> startsWith t ''0O'' then Some 8
      else if startsWith t ''0b'' \<or> startsWith t ''0B'' then Some 2
      else None)"

definition toNumber :: "string \<Rightarrow> jsnum" where
  "toNumber s =
     (let t = trim s in
      if t = [] then Fin 0
      else (case radixPrefix t of
              Some b \<Rightarrow>
                (if drop 2 t = [] then NaN
                 else (case radixVal b 0 (drop 2 t) of None \<Rightarrow> NaN | Some n \<Rightarrow> Fin (of_nat n)))
            | None \<Rightarrow>
                (case scanDecimal t of
                   None \<Rightarrow> NaN
                 | Some (v, r) \<Rightarrow> if r = [] then v else NaN)))"

text \<open>
  \<^verbatim>\<open>parseSalePrice\<close> (scraper/parcel-details.ts): \<^verbatim>\<open>priceStr.replace(/[$,\s]/g, '')\<close>
  removes every dollar sign, comma and white-space character before \<^verbatim>\<open>parseFloat\<close> reads
  the text.
\<close>

definition stripCurrency :: "string \<Rightarrow> string" where
  "stripCurrency s = filter (\<lambda>c. \<not> (c = CHR ''$'' \<or> c = CHR '','' \<or> isSpace c)) s"

definition parseSalePrice :: "string \<Rightarrow> jsnum" where
  "parseSalePrice priceStr =
     (if priceStr = [] then Fin 0
      else (let cleaned = stripCurrency priceStr;
                num = parseFloat cleaned
            in if isNaN num then Fin 0 else num))"

section \<open>Data model (types/index.ts)\<close>

text \<open>
  The interfaces of the program as records. A field keeps its name behind a prefix that
  tells the record (\<open>raw_\<close>, \<open>sr_\<close>, \<open>pd_\<close>, \<open>cs_\<close>), since several interfaces share field
  names. Of the configuration the fields that the scraper and the filter read are kept.
\<close>

record RawParcelRecord =
  raw_parcel_id :: string
  raw_owner_name :: string
  raw_property_address :: string
  raw_city :: string
  raw_zip :: string
  raw_classification :: string
  raw_land_use :: string
  raw_acreage :: string
  raw_assessed_value :: string
  raw_sale_date :: string
  raw_sale_price :: string
  raw_deed_instrument :: string
  raw_qualified_sale :: string
  raw_source_url :: string

record CleanedSale =
  cs_parcel_id :: string
  cs_situs_address :: string
  cs_city :: string
  cs_state :: string
  cs_zip :: string
  cs_owner_name :: "string option"
  cs_owner_mailing_address :: "string option"
  cs_sale_date :: string
  cs_sale_price :: jsnum
  cs_deed_instrument :: string
  cs_land_use :: string
  cs_source_url :: string
  cs_extracted_at :: string



record ExtractorConfig =
  concurrency :: int
  requestDelayMs :: int
  minSalePrice :: jsnum
  instrumentDenylist :: "string list"
  countyCode :: string

text \<open>
  A \<^verbatim>\<open>Date\<close> is its time value, a count of milliseconds, or the invalid date. The model
  keeps the clock of the machine in UTC, so that local time and time value agree.
\<close>

datatype jsdate = InvalidDate | TimeValue int

record DateRange =
  range_start :: jsdate
  range_end :: jsdate
  range_label :: string

text \<open>\<^verbatim>\<open>a >= b\<close> and \<^verbatim>\<open>a <= b\<close> on dates compare the time values; an invalid date compares false.\<close>

fun date_ge :: "jsdate \<Rightarrow> jsdate \<Rightarrow> bool" where
  "date_ge (TimeValue a) (TimeValue b) = (a \<ge> b)"
| "date_ge _ _ = False"

fun date_le :: "jsdate \<Rightarrow> jsdate \<Rightarrow> bool" where
  "date_le (TimeValue a) (TimeValue b) = (a \<le> b)"
| "date_le _ _ = False"

section \<open>Calendar dates (utils/date-range.ts)\<close>

text \<open>
  \<^verbatim>\<open>new Date(year, monthIndex, day)\<close> after the language standard: each argument is cut
  to an integer, a year from 0 to 99 means 1900 plus that year, months beyond the year
  carry over, and the day number of the first of the month plus the day gives the date.
  A time value beyond 8.64e15 milliseconds is the invalid date, and so is any argument
  that is not finite.
\<close>

definition truncRat :: "rat \<Rightarrow> int" where
  "truncRat x = (if 0 \<le> x then \<lfloor>x\<rfloor> else \<lceil>x\<rceil>)"

definition dayFromYear :: "int \<Rightarrow> int" where
  "dayFromYear y =
     365 * (y - 1970) + (y - 1969) div 4 - (y - 1901) div 100 + (y - 1601) div 400"

definition inLeapYear :: "int \<Rightarrow> bool" where
  "inLeapYear y = (y mod 4 = 0 \<and> (y mod 100 \<noteq> 0 \<or> y mod 400 = 0))"

definition monthStart :: "int \<Rightarrow> bool \<Rightarrow> int" where
  "monthStart mn leap =
     [0, 31, 59, 90, 120, 151, 181, 212, 243, 273, 304, 334] ! nat mn
       + (if leap \<and> 2 \<le> mn then 1 else 0)"

definition makeDay :: "int \<Rightarrow> int \<Rightarrow> int \<Rightarrow> int" where
  "makeDay year month date =
     (let ym = year + month div 12; mn = month mod 12
      in dayFromYear ym + monthStart mn (inLeapYear ym) + date - 1)"

definition timeClip :: "int \<Rightarrow> jsdate" where
  "timeClip t = (if \<bar>t\<bar> \<le> 8640000000000000 then TimeValue t else InvalidDate)"

fun newDate :: "jsnum \<Rightarrow> jsnum \<Rightarrow> jsnum \<Rightarrow> jsdate" where
  "newDate (Fin y) (Fin m) (Fin d) =
     (let yi = truncRat y; yr = (if 0 \<le> yi \<and> yi \<le> 99 then 1900 + yi else yi)
      in timeClip (makeDay yr (truncRat m) (truncRat d) * 86400000))"
| "newDate _ _ _ = InvalidDate"

text \<open>
  \<^verbatim>\<open>parseDate\<close>: the text is split at every \<^verbatim>\<open>-\<close>, each field is converted by
  \<^verbatim>\<open>Number\<close>, and the first three are year, month and day. A field that is missing is
  \<^verbatim>\<open>undefined\<close>, which the date constructor reads as \<open>NaN\<close>.
\<close>

definition numAt :: "jsnum list \<Rightarrow> nat \<Rightarrow> jsnum" where
  "numAt xs i = (if i < length xs then xs ! i else NaN)"

definition parseDate :: "string \<Rightarrow> jsdate" where
  "parseDate dateStr =
     (let fields = map toNumber (splitOn (CHR ''-'') dateStr);
          year = numAt fields 0; month = numAt fields 1; day = numAt fields 2
      in newDate year (js_sub month (Fin 1)) day)"

text \<open>\<^verbatim>\<open>isDateInRange\<close>, called by the filter with the date as text.\<close>

definition isDateInRange :: "string \<Rightarrow> DateRange \<Rightarrow> bool" where
  "isDateInRange date dateRange =
     (let d = parseDate date
      in date_ge d (range_start dateRange) \<and> date_le d (range_end dateRange))"

section \<open>Filter engine (processors/filter.ts)\<close>

definition isDeniedInstrument :: "string \<Rightarrow> string list \<Rightarrow> bool" where
  "isDeniedInstrument instrument denylist =
     (if instrument = [] then False
      else (let normalized = trim (toLowerCase instrument)
            in list_ex (\<lambda>denied. includesStr normalized (toLowerCase denied)) denylist))"

definition residentialTerms :: "string list" where
  "residentialTerms =
     [''residential'', ''single family'', ''sfr'', ''duplex'', ''townhouse'', ''condo'']"

definition isResidential :: "RawParcelRecord \<Rightarrow> bool" where
  "isResidential record =
     (let classification = trim (raw_classification record) in
      if classification = ''00'' \<or> includesStr (toLowerCase classification) ''residential''
      then True
      else (let landUse = toLowerCase (raw_land_use record)
            in list_ex (\<lambda>term. includesStr landUse term) residentialTerms))"

datatype FilterReason =
  LowSalePrice | DeniedInstrument | OutsideDateRange | NonResidential | QualifiedSaleFailed

record FilterReasons =
  lowSalePrice :: nat
  deniedInstrument :: nat
  outsideDateRange :: nat
  nonResidential :: nat
  qualifiedSaleFailed :: nat
  other :: nat

record FilterResult =
  passed :: "RawParcelRecord list"
  filtered :: "RawParcelRecord list"
  reasons :: FilterReasons

text \<open>\<^verbatim>\<open>reasons[reason]++\<close>.\<close>

fun increment :: "FilterReason \<Rightarrow> FilterReasons \<Rightarrow> FilterReasons" where
  "increment LowSalePrice rs = rs\<lparr>lowSalePrice := lowSalePrice rs + 1\<rparr>"
| "increment DeniedInstrument rs = rs\<lparr>deniedInstrument := deniedInstrument rs + 1\<rparr>"
| "increment OutsideDateRange rs = rs\<lparr>outsideDateRange := outsideDateRange rs + 1\<rparr>"
| "increment NonResidential rs = rs\<lparr>nonResidential := nonResidential rs + 1\<rparr>"
| "increment QualifiedSaleFailed rs = rs\<lparr>qualifiedSaleFailed := qualifiedSaleFailed rs + 1\<rparr>"

text \<open>
  The body of the loop of \<^verbatim>\<open>filterRecords\<close> up to the decision: the variable
  \<^verbatim>\<open>reason\<close> starts as \<^verbatim>\<open>null\<close> and each check assigns it only while it is still \<^verbatim>\<open>null\<close>.
\<close>

definition rejectionReason ::
  "ExtractorConfig \<Rightarrow> DateRange \<Rightarrow> RawParcelRecord \<Rightarrow> FilterReason option" where
  "rejectionReason config dateRange record =
     (let reason0 = None;
          saleDate = parseSaleDate (raw_sale_date record);
          reason1 = (if saleDate \<noteq> [] \<and> \<not> isDateInRange saleDate dateRange
                     then Some OutsideDateRange else reason0);
          reason2 = (if reason1 = None \<and> \<not> isResidential record
                     then Some NonResidential else reason1);
          price = parseSalePrice (raw_sale_price record);
          reason3 = (if reason2 = None \<and> js_lt price (minSalePrice config)
                     then Some LowSalePrice else reason2);
          reason4 = (if reason3 = None
                        \<and> isDeniedInstrument (raw_deed_instrument record) (instrumentDenylist config)
                     then Some DeniedInstrument else reason3);
          reason5 = (if reason4 = None \<and> raw_qualified_sale record \<noteq> []
                     then (let qualified = trim (toLowerCase (raw_qualified_sale record))
                           in if qualified = ''n'' \<or> qualified = ''no'' \<or> qualified = ''false''
                                 \<or> qualified = ''0''
                              then Some QualifiedSaleFailed else reason4)
                     else reason4)
      in reason5)"

fun filterLoop ::
  "ExtractorConfig \<Rightarrow> DateRange \<Rightarrow> RawParcelRecord list \<Rightarrow> FilterResult \<Rightarrow> FilterResult" where
  "filterLoop config dateRange [] acc = acc"
| "filterLoop config dateRange (record # records) acc =
     filterLoop config dateRange records
       (case rejectionReason config dateRange record of
          Some reason \<Rightarrow>
            acc\<lparr>filtered := filtered acc @ [record], reasons := increment reason (reasons acc)\<rparr>
        | None \<Rightarrow> acc\<lparr>passed := passed acc @ [record]\<rparr>)"

definition filterRecords ::
  "RawParcelRecord list \<Rightarrow> ExtractorConfig \<Rightarrow> DateRange \<Rightarrow> FilterResult" where
  "filterRecords records config dateRange =
     filterLoop config dateRange records
       \<lparr>passed = [], filtered = [],
        reasons = \<lparr>lowSalePrice = 0, deniedInstrument = 0, outsideDateRange = 0,
                   nonResidential = 0, qualifiedSaleFailed = 0, other = 0\<rparr>\<rparr>"

text \<open>
  The five predicates in the specification's words, each true of a record that it lets
  through, with the reason each gives when it fails, in the fixed order.
\<close>

definition dateOk :: "DateRange \<Rightarrow> RawParcelRecord \<Rightarrow> bool" where
  "dateOk dateRange record =
     (parseSaleDate (raw_sale_date record) = []
      \<or> isDateInRange (parseSaleDate (raw_sale_date record)) dateRange)"

definition priceOk :: "ExtractorConfig \<Rightarrow> RawParcelRecord \<Rightarrow> bool" where
  "priceOk config record =
     (\<not> js_lt (parseSalePrice (raw_sale_price record)) (minSalePrice config))"

definition instrumentOk :: "ExtractorConfig \<Rightarrow> RawParcelRecord \<Rightarrow> bool" where
  "instrumentOk config record =
     (\<not> isDeniedInstrument (raw_deed_instrument record) (instrumentDenylist config))"

definition qualifiedOk :: "RawParcelRecord \<Rightarrow> bool" where
  "qualifiedOk record =
     (trim (toLowerCase (raw_qualified_sale record)) \<notin> {''n'', ''no'', ''false'', ''0''})"

definition orderedPredicates ::
  "ExtractorConfig \<Rightarrow> DateRange \<Rightarrow> (FilterReason \<times> (RawParcelRecord \<Rightarrow> bool)) list" where
  "orderedPredicates config dateRange =
     [(OutsideDateRange, dateOk dateRange),
      (NonResidential, isResidential),
      (LowSalePrice, priceOk config),
      (DeniedInstrument, instrumentOk config),
      (QualifiedSaleFailed, qualifiedOk)]"

definition firstFailure ::
  "ExtractorConfig \<Rightarrow> DateRange \<Rightarrow> RawParcelRecord \<Rightarrow> FilterReason option" where
  "firstFailure config dateRange record =
     map_option fst (find (\<lambda>(reason, ok). \<not> ok record) (orderedPredicates config dateRange))"

definition countReason ::
  "ExtractorConfig \<Rightarrow> DateRange \<Rightarrow> FilterReason \<Rightarrow> RawParcelRecord list \<Rightarrow> nat" where
  "countReason config dateRange reason records =
     length (filter (\<lambda>r. firstFailure config dateRange r = Some reason) records)"

section \<open>Fixtures of the test suite\<close>

text \<open>
  The record and the configuration that the tests of the repository build
  (\<^verbatim>\<open>createMockRecord\<close>, \<^verbatim>\<open>mockConfig\<close>), and the week that
  \<^verbatim>\<open>getWeekRangeFromMonday('2025-01-06')\<close> gives: Monday 2025-01-06, 00:00:00.000, to
  Sunday 2025-01-12, 23:59:59.999.
\<close>

definition mockRecord :: RawParcelRecord where
  "mockRecord =
     \<lparr>raw_parcel_id = ''123-456'', raw_owner_name = ''John Doe'',
      raw_property_address = ''123 Main St'', raw_city = ''Covington'', raw_zip = ''38019'',
      raw_classification = ''00'', raw_land_use = ''Residential'', raw_acreage = ''0.5'',
      raw_assessed_value = ''150000'', raw_sale_date = ''01/08/2025'',
      raw_sale_price = ''$250,000'', raw_deed_instrument = ''Warranty Deed'',
      raw_qualified_sale = ''Y'', raw_source_url = ''https://example.com/parcel/123-456''\<rparr>"

definition mockConfig :: ExtractorConfig where
  "mockConfig =
     \<lparr>concurrency = 3, requestDelayMs = 1000, minSalePrice = Fin 1000,
      instrumentDenylist = [''Quitclaim'', ''Deed of Trust'', ''Sheriff''],
      countyCode = ''084''\<rparr>"

definition weekOfJan6 :: DateRange where
  "weekOfJan6 =
     \<lparr>range_start = TimeValue 1736121600000, range_end = TimeValue 1736726399999,
      range_label = ''Week of 2025-01-06''\<rparr>"

section \<open>Normalisers (processors/transform.ts)\<close>

text \<open>\<^verbatim>\<open>s.replace(/\s+/g, ' ')\<close>: every run of white space becomes one space.\<close>

function collapseSpaces :: "string \<Rightarrow> string" where
  "collapseSpaces [] = []"
| "collapseSpaces (c # cs) =
     (if isSpace c then CHR '' '' # collapseSpaces (dropWhile isSpace cs)
      else c # collapseSpaces cs)"
  by pat_completeness auto
termination
  by (relation "measure length") (auto simp: less_Suc_eq_le length_dropWhile_le)

text \<open>
  The pattern \<^verbatim>\<open>/([A-Z]{2})\s*(\d{5}(?:-\d{4})?)?$/i\<close> of \<^verbatim>\<open>parseAddress\<close>. A match that
  begins at a given place is two letters, then all the white space that follows, then
  either nothing, or five digits, or five digits, a hyphen and four digits, up to the end
  of the text; the result is the matched text, the first group and the second group
  (\<^verbatim>\<open>undefined\<close> when the text ends after the white space).
\<close>

definition isZip5 :: "string \<Rightarrow> bool" where
  "isZip5 z = (length z = 5 \<and> list_all isDigit z)"

definition isZip9 :: "string \<Rightarrow> bool" where
  "isZip9 z =
     (length z = 10 \<and> list_all isDigit (take 5 z) \<and> z ! 5 = CHR ''-''
      \<and> list_all isDigit (drop 6 z))"

definition stateZipAt :: "string \<Rightarrow> (string \<times> string \<times> string option) option" where
  "stateZipAt s =
     (case s of
        a # b # rest \<Rightarrow>
          if isLetter a \<and> isLetter b then
            (let z = dropWhile isSpace rest in
             if z = [] then Some (s, [a, b], None)
             else if isZip5 z \<or> isZip9 z then Some (s, [a, b], Some z)
             else None)
          else None
      | _ \<Rightarrow> None)"

text \<open>The matcher tries the places of the text from left to right and takes the first match.\<close>

fun stateZipMatch :: "string \<Rightarrow> (string \<times> string \<times> string option) option" where
  "stateZipMatch [] = None"
| "stateZipMatch (c # cs) =
     (case stateZipAt (c # cs) of Some m \<Rightarrow> Some m | None \<Rightarrow> stateZipMatch cs)"

record Address =
  street :: string
  city :: string
  state :: string
  zip :: string

definition parseAddress :: "string \<Rightarrow> Address" where
  "parseAddress fullAddress =
     (if fullAddress = [] then \<lparr>street = [], city = [], state = [], zip = []\<rparr>
      else
        (let parts = map trim (splitOn (CHR '','') fullAddress) in
         if length parts \<ge> 2 then
           (let street = parts ! 0; lastPart = parts ! (length parts - 1) in
            case stateZipMatch lastPart of
              Some (whole, st, zipGroup) \<Rightarrow>
                (let state = toUpperCase st;
                     zip = (case zipGroup of Some z \<Rightarrow> z | None \<Rightarrow> []);
                     cityPart =
                       (if length parts > 2 then join '', '' (butlast (tl parts))
                        else trim (removeFirst lastPart whole))
                 in \<lparr>street = street, city = cityPart, state = state, zip = zip\<rparr>)
            | None \<Rightarrow>
                \<lparr>street = street, city = (if length parts > 1 then parts ! 1 else []),
                 state = ''TN'', zip = []\<rparr>)
         else \<lparr>street = fullAddress, city = [], state = ''TN'', zip = []\<rparr>))"

text \<open>\<^verbatim>\<open>cleanOwnerName\<close>: the second pattern keeps word characters, white space and \<^verbatim>\<open>,.'&-\<close>.\<close>

definition isWordChar :: "char \<Rightarrow> bool" where
  "isWordChar c = (isLetter c \<or> isDigit c \<or> c = CHR ''_'')"

definition cleanOwnerName :: "string \<Rightarrow> string" where
  "cleanOwnerName name =
     (if name = [] then []
      else filter (\<lambda>c. isWordChar c \<or> isSpace c \<or> c \<in> set '',.&-'' \<or> c = CHR 0x27)
             (collapseSpaces (trim name)))"

definition cleanAddress :: "string \<Rightarrow> string" where
  "cleanAddress address =
     (if address = [] then [] else toUpperCase (collapseSpaces (trim address)))"

text \<open>
  \<^verbatim>\<open>transformRecord\<close>. The time stamp \<^verbatim>\<open>new Date().toISOString()\<close> is read from the clock:
  the model takes it as the argument \<open>now\<close>. \<^verbatim>\<open>a || b\<close> on strings is \<open>b\<close> when \<open>a\<close> is
  empty.
\<close>

definition orElse :: "string \<Rightarrow> string \<Rightarrow> string" where
  "orElse a b = (if a = [] then b else a)"

definition transformRecord :: "string \<Rightarrow> RawParcelRecord \<Rightarrow> CleanedSale" where
  "transformRecord now record =
     (let salePrice = parseSalePrice (raw_sale_price record);
          saleDate = parseSaleDate (raw_sale_date record);
          propertyAddress = cleanAddress (raw_property_address record);
          city0 = orElse (trim (raw_city record)) [];
          zip0 = orElse (trim (raw_zip record)) [];
          parsed = parseAddress propertyAddress;
          fromAddress = (city0 = [] \<and> includesStr propertyAddress '','');
          city1 = (if fromAddress then orElse city0 (city parsed) else city0);
          zip1 = (if fromAddress then orElse zip0 (zip parsed) else zip0);
          ownerName = cleanOwnerName (raw_owner_name record)
      in \<lparr>cs_parcel_id = trim (raw_parcel_id record),
          cs_situs_address = propertyAddress,
          cs_city = toUpperCase city1,
          cs_state = ''TN'',
          cs_zip = zip1,
          cs_owner_name = (if ownerName = [] then None else Some ownerName),
          cs_owner_mailing_address = None,
          cs_sale_date = saleDate,
          cs_sale_price = salePrice,
          cs_deed_instrument = orElse (trim (raw_deed_instrument record)) [],
          cs_land_use =
            orElse (trim (raw_land_use record)) (orElse (trim (raw_classification record)) []),
          cs_source_url = orElse (raw_source_url record) [],
          cs_extracted_at = now\<rparr>)"

definition transformRecords :: "string \<Rightarrow> RawParcelRecord list \<Rightarrow> CleanedSale list" where
  "transformRecords now records = map (transformRecord now) records"






text \<open>
  The words of the specification about the output record: a price that is a non-negative
  integer, and a last address segment that ends in a state and an optional ZIP code: two
  letters, white space, and then nothing, five digits, or five digits, a hyphen and four
  digits.
\<close>

definition isNonNegativeInteger :: "jsnum \<Rightarrow> bool" where
  "isNonNegativeInteger x = (case x of Fin q \<Rightarrow> 0 \<le> q \<and> q = of_int \<lfloor>q\<rfloor> | _ \<Rightarrow> False)"

definition endsWithStateZip :: "string \<Rightarrow> bool" where
  "endsWithStateZip s =
     (\<exists>before a b ws z. s = before @ [a, b] @ ws @ z \<and> isLetter a \<and> isLetter b
        \<and> list_all isSpace ws \<and> (z = [] \<or> isZip5 z \<or> isZip9 z))"

text \<open>The cleaned sales of the test suite of \<^verbatim>\<open>getSalesStats\<close>: a parcel id and a price.\<close>

definition pricedSale :: "string \<Rightarrow> jsnum \<Rightarrow> CleanedSale" where
  "pricedSale pid price =
     \<lparr>cs_parcel_id = pid, cs_situs_address = [], cs_city = [], cs_state = ''TN'', cs_zip = [],
      cs_owner_name = None, cs_owner_mailing_address = None, cs_sale_date = [],
      cs_sale_price = price, cs_deed_instrument = [], cs_land_use = [], cs_source_url = [],
      cs_extracted_at = []\<rparr>"

section \<open>Deduplicator (processors/dedupe.ts)\<close>

definition normalizeParcelId :: "string \<Rightarrow> string" where
  "normalizeParcelId parcelId = collapseSpaces (trim parcelId)"

text \<open>
  The keys of the cleaned-record pass are template literals that end in the sale price.
  The runtime prints a number without a bar, and prints two numbers alike only when they
  are the same number; so two such keys are the same text exactly when the texts before
  the number are the same and the numbers are the same. A key is modelled by this pair.
\<close>

type_synonym saleKey = "string \<times> jsnum"

definition generateCleanedSaleKey :: "CleanedSale \<Rightarrow> saleKey" where
  "generateCleanedSaleKey sale =
     (let parcelId = normalizeParcelId (cs_parcel_id sale);
          address = orElse (toUpperCase (trim (cs_situs_address sale))) []
      in (parcelId @ ''|'' @ address @ ''|'' @ cs_sale_date sale @ ''|'', cs_sale_price sale))"

definition generateAddressKey :: "CleanedSale \<Rightarrow> saleKey" where
  "generateAddressKey sale =
     (let address = orElse (toUpperCase (trim (cs_situs_address sale))) [];
          city = orElse (toUpperCase (trim (cs_city sale))) []
      in (address @ ''|'' @ city @ ''|'' @ cs_sale_date sale @ ''|'', cs_sale_price sale))"

text \<open>
  The loop of \<^verbatim>\<open>deduplicateCleanedSales\<close>, with its two sets of keys seen and the list
  of the records kept so far.
\<close>

fun cleanedLoop ::
  "CleanedSale list \<Rightarrow> saleKey set \<Rightarrow> saleKey set \<Rightarrow> CleanedSale list \<Rightarrow> CleanedSale list" where
  "cleanedLoop [] seenByKey seenByAddress unique = unique"
| "cleanedLoop (sale # sales) seenByKey seenByAddress unique =
     (let primaryKey = generateCleanedSaleKey sale;
          addressKey = generateAddressKey sale
      in if primaryKey \<in> seenByKey \<or> addressKey \<in> seenByAddress
         then cleanedLoop sales seenByKey seenByAddress unique
         else cleanedLoop sales (insert primaryKey seenByKey) (insert addressKey seenByAddress)
                (unique @ [sale]))"

definition deduplicateCleanedSales :: "CleanedSale list \<Rightarrow> CleanedSale list" where
  "deduplicateCleanedSales sales = cleanedLoop sales {} {} []"




text \<open>A cleaned sale with an owner, an address and a price, for the examples.\<close>

definition ownedSale :: "string \<Rightarrow> string \<Rightarrow> string \<Rightarrow> jsnum \<Rightarrow> CleanedSale" where
  "ownedSale pid owner address price =
     (pricedSale pid price)
       \<lparr>cs_situs_address := address, cs_city := ''COVINGTON'',
        cs_owner_name := (if owner = [] then None else Some owner),
        cs_sale_date := ''2025-01-08''\<rparr>"


section \<open>Retry wrapper (utils/retry.ts)\<close>

text \<open>
  An error carries its message. The options are the record that \<^verbatim>\<open>withRetry\<close> works with
  after it has merged the caller's options into the defaults; the retry bound is a count.
\<close>

record Error =
  message :: string

record RetryOptions =
  maxRetries :: nat
  initialDelayMs :: nat
  maxDelayMs :: nat
  backoffMultiplier :: nat
  isRetryable :: "(Error \<Rightarrow> bool) option"

definition DEFAULT_OPTIONS :: RetryOptions where
  "DEFAULT_OPTIONS =
     \<lparr>maxRetries = 3, initialDelayMs = 1000, maxDelayMs = 30000, backoffMultiplier = 2,
      isRetryable = None\<rparr>"

definition retryableMessages :: "string list" where
  "retryableMessages =
     [''timeout'', ''ECONNRESET'', ''ECONNREFUSED'', ''ETIMEDOUT'', ''socket hang up'',
      ''network'', ''Navigation timeout'', ''Target closed'', ''Page closed'']"

definition isNetworkRetryable :: "Error \<Rightarrow> bool" where
  "isNetworkRetryable error =
     (let msg = toLowerCase (message error)
      in list_ex (\<lambda>m. includesStr msg (toLowerCase m)) retryableMessages)"

text \<open>
  \<^verbatim>\<open>withRetry\<close>. The operation \<^verbatim>\<open>fn\<close> acts on the world: it takes a state and returns
  its outcome, an error thrown or a value, with the next state. The loop counts the
  attempts from 0; a \<^verbatim>\<open>break\<close> leaves it for the final \<^verbatim>\<open>throw lastError\<close>, and
  \<^verbatim>\<open>lastError\<close> is \<^verbatim>\<open>undefined\<close> (here \<open>None\<close>) until an attempt has failed. The pause
  between two attempts changes no result and is left out.
\<close>

function withRetryLoop ::
  "('s \<Rightarrow> (Error + 'a) \<times> 's) \<Rightarrow> RetryOptions \<Rightarrow> nat \<Rightarrow> Error option \<Rightarrow> 's
     \<Rightarrow> (Error option + 'a) \<times> 's" where
  "withRetryLoop fn opts attempt lastError s =
     (if attempt \<le> maxRetries opts then
        (case fn s of
           (Inr v, s') \<Rightarrow> (Inr v, s')
         | (Inl error, s') \<Rightarrow>
             if attempt \<ge> maxRetries opts then (Inl (Some error), s')
             else if (case isRetryable opts of None \<Rightarrow> False | Some retryable \<Rightarrow> \<not> retryable error)
               then (Inl (Some error), s')
             else withRetryLoop fn opts (attempt + 1) (Some error) s')
      else (Inl lastError, s))"
  by pat_completeness auto
termination
  by (relation "measure (\<lambda>(fn, opts, attempt, lastError, s). Suc (maxRetries opts) - attempt)")
    auto

definition withRetry ::
  "('s \<Rightarrow> (Error + 'a) \<times> 's) \<Rightarrow> RetryOptions \<Rightarrow> 's \<Rightarrow> (Error option + 'a) \<times> 's" where
  "withRetry fn opts s = withRetryLoop fn opts 0 None s"

text \<open>
  To speak of the invocations of the operation, \<open>traced fn\<close> is the operation \<open>fn\<close> that
  also writes each of its outcomes to a log kept beside the state. An error is retried by
  the options when there is no classifier or the classifier accepts it.
\<close>

definition traced ::
  "('s \<Rightarrow> (Error + 'a) \<times> 's) \<Rightarrow> 's \<times> (Error + 'a) list
     \<Rightarrow> (Error + 'a) \<times> 's \<times> (Error + 'a) list" where
  "traced fn st = (case fn (fst st) of (r, s') \<Rightarrow> (r, s', snd st @ [r]))"

definition retriedBy :: "RetryOptions \<Rightarrow> Error \<Rightarrow> bool" where
  "retriedBy opts error = (case isRetryable opts of None \<Rightarrow> True | Some retryable \<Rightarrow> retryable error)"

definition rethrown :: "Error + 'a \<Rightarrow> Error option + 'a" where
  "rethrown r = (case r of Inl error \<Rightarrow> Inl (Some error) | Inr v \<Rightarrow> Inr v)"

text \<open>An operation that plays a script of outcomes, one for each invocation.\<close>

definition scripted :: "(Error + 'a) list \<Rightarrow> (Error + 'a) \<times> (Error + 'a) list" where
  "scripted script =
     (case script of
        [] \<Rightarrow> (Inl \<lparr>message = ''script exhausted''\<rparr>, [])
      | r # rest \<Rightarrow> (r, rest))"

section \<open>Detail enrichment (scraper/search.ts, scraper/parcel-details.ts, scraper/tpad-client.ts)\<close>

























section \<open>Evaluation\<close>

text \<open>The defining equations by which the simplifier runs the model on a concrete input.\<close>

lemmas string_eval =
  trim_def trimStart_def trimEnd_def isSpace_def isDigit_def isLetter_def
  toLowerCase_def lowerChar_def toUpperCase_def upperChar_def padStart_def

lemmas number_eval =
  toNumber_def radixPrefix_def scanDecimal_def scanUnsigned_def scanExponent_def
  digitsVal_def digitVal_def pow10_def parseFloat_def stripCurrency_def parseSalePrice_def

lemmas date_eval =
  parseDate_def numAt_def js_sub_def truncRat_def makeDay_def dayFromYear_def inLeapYear_def
  monthStart_def timeClip_def isDateInRange_def parseSaleDate_def matchUsDate_def
  isIsoDate_def

lemmas filter_eval =
  firstFailure_def orderedPredicates_def dateOk_def priceOk_def instrumentOk_def
  qualifiedOk_def isResidential_def residentialTerms_def isDeniedInstrument_def

lemma weekOfJan6_days:
  "range_start weekOfJan6 = parseDate ''2025-01-06''"
  "parseDate ''2025-01-13'' = TimeValue 1736726400000"
  by (simp_all add: weekOfJan6_def date_eval number_eval string_eval Let_def)

section \<open>Properties of \<^verbatim>\<open>parseSaleDate\<close>\<close>

lemma slash_not_digit: "\<not> isDigit (CHR ''/'')"
  by (simp add: isDigit_def)

lemma startsWith_cons: "startsWith s [c] = (\<exists>r. s = c # r)"
  by (cases s) auto

lemma takeWhile_digits_slash:
  "list_all isDigit m \<Longrightarrow> takeWhile isDigit (m @ CHR ''/'' # r) = m"
  by (induction m) (simp_all add: slash_not_digit)

lemma dropWhile_digits_slash:
  "list_all isDigit m \<Longrightarrow> dropWhile isDigit (m @ CHR ''/'' # r) = CHR ''/'' # r"
  by (induction m) (simp_all add: slash_not_digit)

lemma matchUsDate_parts:
  assumes "usDateParts m d y"
  shows "matchUsDate (m @ ''/'' @ d @ ''/'' @ y) = Some (m, d, y)"
proof -
  from assms have m: "list_all isDigit m" "length m = 1 \<or> length m = 2"
    and d: "list_all isDigit d" "length d = 1 \<or> length d = 2"
    and y: "list_all isDigit y" "length y = 4"
    by (auto simp: usDateParts_def)
  show ?thesis
    using m d y
    by (simp add: matchUsDate_def Let_def takeWhile_digits_slash dropWhile_digits_slash)
qed

lemma matchUsDate_Some:
  assumes "matchUsDate s = Some (m, d, y)"
  shows "usDateParts m d y \<and> s = m @ ''/'' @ d @ ''/'' @ y"
proof -
  define r1 where "r1 = dropWhile isDigit s"
  define r2 where "r2 = dropWhile isDigit (tl r1)"
  from assms have c1: "length (takeWhile isDigit s) \<in> {1, 2}" "startsWith r1 ''/''"
    and c2: "length (takeWhile isDigit (tl r1)) \<in> {1, 2}" "startsWith r2 ''/''"
    and c3: "length (tl r2) = 4" "list_all isDigit (tl r2)"
    and eqs: "m = takeWhile isDigit s" "d = takeWhile isDigit (tl r1)" "y = tl r2"
    unfolding matchUsDate_def Let_def r1_def r2_def
    by (auto split: if_splits)
  from c1(2) obtain t1 where t1: "r1 = CHR ''/'' # t1"
    by (auto simp: startsWith_cons)
  from c2(2) obtain t2 where t2: "r2 = CHR ''/'' # t2"
    by (auto simp: startsWith_cons)
  have "s = takeWhile isDigit s @ r1"
    by (simp add: r1_def)
  moreover have "t1 = takeWhile isDigit t1 @ r2"
    using t1 by (simp add: r2_def)
  ultimately have "s = m @ ''/'' @ d @ ''/'' @ y"
    using t1 t2 eqs by simp
  moreover have "list_all isDigit m" "list_all isDigit d"
    using eqs by (simp_all add: list_all_iff) (meson set_takeWhileD)+
  ultimately show ?thesis
    using c1 c2 c3 eqs by (simp add: usDateParts_def)
qed

lemma usDateShape_iff: "usDateShape s \<longleftrightarrow> matchUsDate s \<noteq> None"
proof
  assume "usDateShape s"
  then show "matchUsDate s \<noteq> None"
    by (auto simp: usDateShape_def matchUsDate_parts simp del: append_Cons append_Nil)
next
  assume "matchUsDate s \<noteq> None"
  then obtain m d y where "matchUsDate s = Some (m, d, y)"
    by auto
  from matchUsDate_Some [OF this] show "usDateShape s"
    by (auto simp: usDateShape_def)
qed

lemma padStart_two_digits:
  assumes "list_all isDigit m" "length m = 1 \<or> length m = 2"
  shows "length (padStart 2 (CHR ''0'') m) = 2 \<and> list_all isDigit (padStart 2 (CHR ''0'') m)"
  using assms by (auto simp: padStart_def isDigit_def)

lemma isIsoDate_padded:
  assumes "usDateParts m d y"
  shows "isIsoDate (y @ ''-'' @ padStart 2 (CHR ''0'') m @ ''-'' @ padStart 2 (CHR ''0'') d)"
proof -
  from assms have y: "length y = 4" "list_all isDigit y"
    by (auto simp: usDateParts_def)
  from assms have m: "length (padStart 2 (CHR ''0'') m) = 2"
      "list_all isDigit (padStart 2 (CHR ''0'') m)"
    using padStart_two_digits [of m] by (auto simp: usDateParts_def)
  from assms have d: "length (padStart 2 (CHR ''0'') d) = 2"
      "list_all isDigit (padStart 2 (CHR ''0'') d)"
    using padStart_two_digits [of d] by (auto simp: usDateParts_def)
  define mm where "mm = padStart 2 (CHR ''0'') m"
  define dd where "dd = padStart 2 (CHR ''0'') d"
  have "isIsoDate (y @ CHR ''-'' # mm @ CHR ''-'' # dd)"
    using y m d unfolding mm_def [symmetric] dd_def [symmetric]
    by (simp add: isIsoDate_def nth_append)
  then show ?thesis
    by (simp add: mm_def dd_def)
qed


lemma isIsoDate_no_usDate:
  assumes "isIsoDate s"
  shows "matchUsDate s = None"
proof -
  from assms have len: "length s = 10" and dig: "list_all isDigit (take 4 s)"
    and dash: "s ! 4 = CHR ''-''"
    by (auto simp: isIsoDate_def)
  have "drop 4 s = s ! 4 # drop 5 s"
    using len Cons_nth_drop_Suc [of 4 s] by simp
  then have s: "s = take 4 s @ CHR ''-'' # drop 5 s"
    using dash append_take_drop_id [of 4 s] by simp
  have nd: "\<not> isDigit (CHR ''-'')"
    by (simp add: isDigit_def)
  have "takeWhile isDigit (take 4 s @ CHR ''-'' # drop 5 s) = take 4 s"
    using dig nd by (simp add: takeWhile_append2 list_all_iff)
  then have "takeWhile isDigit s = take 4 s"
    using s by simp
  then have "length (takeWhile isDigit s) = 4"
    using len by simp
  then show ?thesis
    by (simp add: matchUsDate_def Let_def)
qed


text \<open>
  Claim C6. \<^verbatim>\<open>parseSaleDate\<close> turns a date of shape \<open>M/D/YYYY\<close> or \<open>MM/DD/YYYY\<close> into
  the ISO date \<open>YYYY-MM-DD\<close>, month and day padded with a zero to two digits; it returns
  a string that is already an ISO date unchanged; and it returns every string that has
  not the shape \<open>M/D/YYYY\<close> unchanged, whatever the string holds.
\<close>

theorem parseSaleDate_normalises:
  "(usDateParts m d y \<longrightarrow>
      parseSaleDate (m @ ''/'' @ d @ ''/'' @ y)
        = y @ ''-'' @ padStart 2 (CHR ''0'') m @ ''-'' @ padStart 2 (CHR ''0'') d
      \<and> isIsoDate (parseSaleDate (m @ ''/'' @ d @ ''/'' @ y)))
   \<and> (isIsoDate s \<longrightarrow> parseSaleDate s = s)
   \<and> (\<not> usDateShape t \<longrightarrow> parseSaleDate t = t)"
proof (intro conjI impI)
  assume p: "usDateParts m d y"
  have ne: "m @ ''/'' @ d @ ''/'' @ y \<noteq> []"
    by simp
  show eq: "parseSaleDate (m @ ''/'' @ d @ ''/'' @ y)
      = y @ ''-'' @ padStart 2 (CHR ''0'') m @ ''-'' @ padStart 2 (CHR ''0'') d"
    unfolding parseSaleDate_def matchUsDate_parts [OF p] using ne
    by (simp del: append_Cons append_Nil)
  show "isIsoDate (parseSaleDate (m @ ''/'' @ d @ ''/'' @ y))"
    unfolding eq by (rule isIsoDate_padded [OF p])
next
  assume iso: "isIsoDate s"
  then have "matchUsDate s = None"
    by (rule isIsoDate_no_usDate)
  then show "parseSaleDate s = s"
    by (simp add: parseSaleDate_def)
next
  assume "\<not> usDateShape t"
  then have "matchUsDate t = None"
    by (cases "matchUsDate t") (simp_all add: usDateShape_iff)
  then show "parseSaleDate t = t"
    by (simp add: parseSaleDate_def)
qed

theorem parseSaleDate_normalises_witness:
  "usDateParts ''1'' ''8'' ''2025'' \<and> parseSaleDate ''1/8/2025'' = ''2025-01-08''
   \<and> isIsoDate ''2025-01-08'' \<and> parseSaleDate ''2025-01-08'' = ''2025-01-08''
   \<and> \<not> usDateShape ''Jan 8, 2025'' \<and> parseSaleDate ''Jan 8, 2025'' = ''Jan 8, 2025''"
proof -
  have p: "usDateParts ''1'' ''8'' ''2025''"
    by (simp add: usDateParts_def isDigit_def)
  have i: "isIsoDate ''2025-01-08''"
    by (simp add: isIsoDate_def isDigit_def)
  have "matchUsDate ''Jan 8, 2025'' = None"
    by (simp add: matchUsDate_def isDigit_def)
  then have n: "\<not> usDateShape ''Jan 8, 2025''"
    by (simp only: usDateShape_iff) simp
  note spec = parseSaleDate_normalises
    [of "''1''" "''8''" "''2025''" "''2025-01-08''" "''Jan 8, 2025''"]
  from spec p have "parseSaleDate (''1'' @ ''/'' @ ''8'' @ ''/'' @ ''2025'')
      = ''2025'' @ ''-'' @ padStart 2 (CHR ''0'') ''1'' @ ''-'' @ padStart 2 (CHR ''0'') ''8''"
    by blast
  then have a: "parseSaleDate ''1/8/2025'' = ''2025-01-08''"
    by (simp add: padStart_def)
  from spec i have b: "parseSaleDate ''2025-01-08'' = ''2025-01-08''"
    by blast
  from spec n have c: "parseSaleDate ''Jan 8, 2025'' = ''Jan 8, 2025''"
    by blast
  from p a i b n c show ?thesis
    by blast
qed

section \<open>The filter rejects by the first failing predicate\<close>

lemma trim_empty: "trim [] = []"
  by (simp add: trim_def trimStart_def trimEnd_def)

lemma rejectionReason_firstFailure:
  "rejectionReason config dateRange record = firstFailure config dateRange record"
proof (cases "raw_qualified_sale record = []")
  case True
  then show ?thesis
    by (simp add: rejectionReason_def firstFailure_def orderedPredicates_def Let_def
        dateOk_def priceOk_def instrumentOk_def qualifiedOk_def toLowerCase_def trim_empty)
next
  case False
  then show ?thesis
    by (simp add: rejectionReason_def firstFailure_def orderedPredicates_def Let_def
        dateOk_def priceOk_def instrumentOk_def qualifiedOk_def)
qed

lemma filterLoop_acc:
  "filterLoop config dateRange records acc =
     \<lparr>passed = passed acc @ filter (\<lambda>r. firstFailure config dateRange r = None) records,
      filtered = filtered acc @ filter (\<lambda>r. firstFailure config dateRange r \<noteq> None) records,
      reasons =
        \<lparr>lowSalePrice = lowSalePrice (reasons acc)
           + countReason config dateRange LowSalePrice records,
         deniedInstrument = deniedInstrument (reasons acc)
           + countReason config dateRange DeniedInstrument records,
         outsideDateRange = outsideDateRange (reasons acc)
           + countReason config dateRange OutsideDateRange records,
         nonResidential = nonResidential (reasons acc)
           + countReason config dateRange NonResidential records,
         qualifiedSaleFailed = qualifiedSaleFailed (reasons acc)
           + countReason config dateRange QualifiedSaleFailed records,
         other = other (reasons acc)\<rparr>\<rparr>"
proof (induction records arbitrary: acc)
  case Nil
  show ?case
    by (simp add: countReason_def)
next
  case (Cons r records)
  show ?case
  proof (cases "firstFailure config dateRange r")
    case None
    then show ?thesis
      by (simp add: Cons.IH rejectionReason_firstFailure countReason_def)
  next
    case (Some reason)
    then show ?thesis
      by (cases reason) (simp_all add: Cons.IH rejectionReason_firstFailure countReason_def)
  qed
qed

lemma count_partition:
  "countReason config dateRange LowSalePrice records
   + countReason config dateRange DeniedInstrument records
   + countReason config dateRange OutsideDateRange records
   + countReason config dateRange NonResidential records
   + countReason config dateRange QualifiedSaleFailed records
   = length (filter (\<lambda>r. firstFailure config dateRange r \<noteq> None) records)"
proof (induction records)
  case Nil
  show ?case by (simp add: countReason_def)
next
  case (Cons r records)
  show ?case
  proof (cases "firstFailure config dateRange r")
    case None
    with Cons show ?thesis by (simp add: countReason_def)
  next
    case (Some reason)
    with Cons show ?thesis by (cases reason) (simp_all add: countReason_def)
  qed
qed

lemma mock_passes: "firstFailure mockConfig weekOfJan6 mockRecord = None"
  by (simp add: mockConfig_def weekOfJan6_def mockRecord_def filter_eval date_eval number_eval
      string_eval Let_def)

lemma late_and_cheap_is_late:
  "firstFailure mockConfig weekOfJan6
     (mockRecord\<lparr>raw_sale_date := ''01/01/2025'', raw_sale_price := ''$500''\<rparr>)
   = Some OutsideDateRange"
  by (simp add: mockConfig_def weekOfJan6_def mockRecord_def filter_eval date_eval number_eval
      string_eval Let_def)

text \<open>
  Claim C2. \<^verbatim>\<open>filterRecords\<close> judges every record by the five predicates in the order
  date range, residential classification, minimum price, denied instrument, qualified-sale
  flag. A record that fails none passes; a rejected record is filed under exactly one
  reason, that of the first predicate in this order that it fails, so that the counts of
  the reasons add up to the number of rejected records and a record failing several
  predicates is counted under the first one only.
\<close>

theorem filterRecords_first_failure:
  "filterRecords records config dateRange =
     \<lparr>passed = filter (\<lambda>r. firstFailure config dateRange r = None) records,
      filtered = filter (\<lambda>r. firstFailure config dateRange r \<noteq> None) records,
      reasons =
        \<lparr>lowSalePrice = countReason config dateRange LowSalePrice records,
         deniedInstrument = countReason config dateRange DeniedInstrument records,
         outsideDateRange = countReason config dateRange OutsideDateRange records,
         nonResidential = countReason config dateRange NonResidential records,
         qualifiedSaleFailed = countReason config dateRange QualifiedSaleFailed records,
         other = 0\<rparr>\<rparr>
   \<and> lowSalePrice (reasons (filterRecords records config dateRange))
       + deniedInstrument (reasons (filterRecords records config dateRange))
       + outsideDateRange (reasons (filterRecords records config dateRange))
       + nonResidential (reasons (filterRecords records config dateRange))
       + qualifiedSaleFailed (reasons (filterRecords records config dateRange))
       + other (reasons (filterRecords records config dateRange))
       = length (filtered (filterRecords records config dateRange))
   \<and> (firstFailure config dateRange r = None)
       = (dateOk dateRange r \<and> isResidential r \<and> priceOk config r \<and> instrumentOk config r
          \<and> qualifiedOk r)
   \<and> (firstFailure config dateRange r = Some OutsideDateRange) = (\<not> dateOk dateRange r)
   \<and> (firstFailure config dateRange r = Some NonResidential)
       = (dateOk dateRange r \<and> \<not> isResidential r)
   \<and> (firstFailure config dateRange r = Some LowSalePrice)
       = (dateOk dateRange r \<and> isResidential r \<and> \<not> priceOk config r)
   \<and> (firstFailure config dateRange r = Some DeniedInstrument)
       = (dateOk dateRange r \<and> isResidential r \<and> priceOk config r \<and> \<not> instrumentOk config r)
   \<and> (firstFailure config dateRange r = Some QualifiedSaleFailed)
       = (dateOk dateRange r \<and> isResidential r \<and> priceOk config r \<and> instrumentOk config r
          \<and> \<not> qualifiedOk r)"
proof -
  have result: "filterRecords records config dateRange =
     \<lparr>passed = filter (\<lambda>r. firstFailure config dateRange r = None) records,
      filtered = filter (\<lambda>r. firstFailure config dateRange r \<noteq> None) records,
      reasons =
        \<lparr>lowSalePrice = countReason config dateRange LowSalePrice records,
         deniedInstrument = countReason config dateRange DeniedInstrument records,
         outsideDateRange = countReason config dateRange OutsideDateRange records,
         nonResidential = countReason config dateRange NonResidential records,
         qualifiedSaleFailed = countReason config dateRange QualifiedSaleFailed records,
         other = 0\<rparr>\<rparr>"
    by (simp add: filterRecords_def filterLoop_acc)
  have total: "lowSalePrice (reasons (filterRecords records config dateRange))
       + deniedInstrument (reasons (filterRecords records config dateRange))
       + outsideDateRange (reasons (filterRecords records config dateRange))
       + nonResidential (reasons (filterRecords records config dateRange))
       + qualifiedSaleFailed (reasons (filterRecords records config dateRange))
       + other (reasons (filterRecords records config dateRange))
       = length (filtered (filterRecords records config dateRange))"
    unfolding result using count_partition [of config dateRange records] by simp
  have order:
    "(firstFailure config dateRange r = None)
       = (dateOk dateRange r \<and> isResidential r \<and> priceOk config r \<and> instrumentOk config r
          \<and> qualifiedOk r)"
    "(firstFailure config dateRange r = Some OutsideDateRange) = (\<not> dateOk dateRange r)"
    "(firstFailure config dateRange r = Some NonResidential)
       = (dateOk dateRange r \<and> \<not> isResidential r)"
    "(firstFailure config dateRange r = Some LowSalePrice)
       = (dateOk dateRange r \<and> isResidential r \<and> \<not> priceOk config r)"
    "(firstFailure config dateRange r = Some DeniedInstrument)
       = (dateOk dateRange r \<and> isResidential r \<and> priceOk config r \<and> \<not> instrumentOk config r)"
    "(firstFailure config dateRange r = Some QualifiedSaleFailed)
       = (dateOk dateRange r \<and> isResidential r \<and> priceOk config r \<and> instrumentOk config r
          \<and> \<not> qualifiedOk r)"
    by (auto simp: firstFailure_def orderedPredicates_def)
  from result total order show ?thesis
    by (intro conjI)
qed

theorem filterRecords_first_failure_witness:
  "filterRecords
     [mockRecord, mockRecord\<lparr>raw_sale_date := ''01/01/2025'', raw_sale_price := ''$500''\<rparr>]
     mockConfig weekOfJan6
   = \<lparr>passed = [mockRecord],
      filtered = [mockRecord\<lparr>raw_sale_date := ''01/01/2025'', raw_sale_price := ''$500''\<rparr>],
      reasons = \<lparr>lowSalePrice = 0, deniedInstrument = 0, outsideDateRange = 1,
                 nonResidential = 0, qualifiedSaleFailed = 0, other = 0\<rparr>\<rparr>"
  using filterRecords_first_failure
    [of "[mockRecord, mockRecord\<lparr>raw_sale_date := ''01/01/2025'', raw_sale_price := ''$500''\<rparr>]"
      mockConfig weekOfJan6 mockRecord, THEN conjunct1]
  by (simp add: countReason_def mock_passes late_and_cheap_is_late)

section \<open>The date predicate of the filter\<close>

lemma splitOn_nonempty: "splitOn c s \<noteq> []"
  by (induction s) (auto split: list.splits)

lemma newDate_NaN [simp]: "newDate y m NaN = InvalidDate" "newDate y NaN d = InvalidDate"
  by (cases y; cases m; cases d; simp)+

lemma js_sub_NaN [simp]: "js_sub NaN x = NaN"
  by (simp add: js_sub_def)

lemma parseDate_few_fields:
  assumes "length (splitOn (CHR ''-'') s) < 3"
  shows "parseDate s = InvalidDate"
  using assms by (simp add: parseDate_def numAt_def Let_def)

lemma isDateInRange_invalid:
  "parseDate s = InvalidDate \<Longrightarrow> \<not> isDateInRange s dateRange"
  by (simp add: isDateInRange_def)

lemma outside_iff:
  "(rejectionReason config dateRange r = Some OutsideDateRange)
   = (parseSaleDate (raw_sale_date r) \<noteq> []
      \<and> \<not> isDateInRange (parseSaleDate (raw_sale_date r)) dateRange)"
  by (auto simp: rejectionReason_firstFailure firstFailure_def orderedPredicates_def dateOk_def)

lemma parseSaleDate_empty_iff: "(parseSaleDate s = []) = (s = [])"
  by (auto simp: parseSaleDate_def split: option.splits)

lemma undated_passes:
  "rejectionReason mockConfig weekOfJan6 (mockRecord\<lparr>raw_sale_date := []\<rparr>) = None"
  by (simp add: rejectionReason_firstFailure mockConfig_def weekOfJan6_def mockRecord_def
      filter_eval date_eval number_eval string_eval Let_def)

lemma words_not_usDate: "\<not> usDateShape ''last week''"
  by (simp add: usDateShape_iff matchUsDate_def isDigit_def)

text \<open>
  Claim C10, as the code has it. A record with an empty sale date is never rejected as
  outside the date range: the date predicate is skipped and the remaining four predicates
  decide. A record with a non-empty sale date is rejected as outside the date range exactly
  when \<^verbatim>\<open>parseDate\<close> of its normalised date is not a valid date inside the range. This
  is always so when the text is not of shape \<open>M/D/YYYY\<close> and has fewer than three fields
  between hyphens, for then \<^verbatim>\<open>parseDate\<close> gives the invalid date. Last, the count of
  this reason that \<^verbatim>\<open>filterRecords\<close> returns is the number of such records.
\<close>

theorem filterRecords_date_predicate:
  "(raw_sale_date r = [] \<longrightarrow>
      rejectionReason config dateRange r \<noteq> Some OutsideDateRange
      \<and> rejectionReason config dateRange r
          = map_option fst (find (\<lambda>(reason, ok). \<not> ok r) (tl (orderedPredicates config dateRange))))
   \<and> (raw_sale_date r \<noteq> [] \<longrightarrow>
        (rejectionReason config dateRange r = Some OutsideDateRange)
        = (\<not> isDateInRange (parseSaleDate (raw_sale_date r)) dateRange))
   \<and> (raw_sale_date r \<noteq> [] \<and> \<not> usDateShape (raw_sale_date r)
        \<and> length (splitOn (CHR ''-'') (raw_sale_date r)) < 3 \<longrightarrow>
        rejectionReason config dateRange r = Some OutsideDateRange)
   \<and> outsideDateRange (reasons (filterRecords records config dateRange))
       = length (filter (\<lambda>r. raw_sale_date r \<noteq> []
                    \<and> \<not> isDateInRange (parseSaleDate (raw_sale_date r)) dateRange) records)"
proof (intro conjI impI)
  assume e: "raw_sale_date r = []"
  then have p: "parseSaleDate (raw_sale_date r) = []"
    by (simp add: parseSaleDate_def)
  then show "rejectionReason config dateRange r \<noteq> Some OutsideDateRange"
    by (simp add: outside_iff)
  from p show "rejectionReason config dateRange r
      = map_option fst (find (\<lambda>(reason, ok). \<not> ok r) (tl (orderedPredicates config dateRange)))"
    by (simp add: rejectionReason_firstFailure firstFailure_def orderedPredicates_def dateOk_def)
next
  assume "raw_sale_date r \<noteq> []"
  then show "(rejectionReason config dateRange r = Some OutsideDateRange)
        = (\<not> isDateInRange (parseSaleDate (raw_sale_date r)) dateRange)"
    by (simp add: outside_iff parseSaleDate_empty_iff)
next
  assume a: "raw_sale_date r \<noteq> [] \<and> \<not> usDateShape (raw_sale_date r)
        \<and> length (splitOn (CHR ''-'') (raw_sale_date r)) < 3"
  then have "matchUsDate (raw_sale_date r) = None"
    by (cases "matchUsDate (raw_sale_date r)") (simp_all add: usDateShape_iff)
  then have same: "parseSaleDate (raw_sale_date r) = raw_sale_date r"
    by (simp add: parseSaleDate_def)
  from a have "parseDate (raw_sale_date r) = InvalidDate"
    by (simp add: parseDate_few_fields)
  then have "\<not> isDateInRange (raw_sale_date r) dateRange"
    by (rule isDateInRange_invalid)
  with a same show "rejectionReason config dateRange r = Some OutsideDateRange"
    by (simp add: outside_iff)
next
  have "\<And>x. (firstFailure config dateRange x = Some OutsideDateRange)
      = (raw_sale_date x \<noteq> [] \<and> \<not> isDateInRange (parseSaleDate (raw_sale_date x)) dateRange)"
    using outside_iff [of config dateRange]
    by (simp add: rejectionReason_firstFailure parseSaleDate_empty_iff)
  then show "outsideDateRange (reasons (filterRecords records config dateRange))
       = length (filter (\<lambda>r. raw_sale_date r \<noteq> []
                    \<and> \<not> isDateInRange (parseSaleDate (raw_sale_date r)) dateRange) records)"
    by (simp add: filterRecords_def filterLoop_acc countReason_def)
qed

lemma new_year_out_of_range: "\<not> isDateInRange (parseSaleDate ''01/01/2025'') weekOfJan6"
  by (simp add: weekOfJan6_def date_eval number_eval string_eval Let_def)

theorem filterRecords_date_predicate_witness:
  "raw_sale_date (mockRecord\<lparr>raw_sale_date := []\<rparr>) = []
   \<and> rejectionReason mockConfig weekOfJan6 (mockRecord\<lparr>raw_sale_date := []\<rparr>)
       \<noteq> Some OutsideDateRange
   \<and> rejectionReason mockConfig weekOfJan6 (mockRecord\<lparr>raw_sale_date := []\<rparr>) = None
   \<and> raw_sale_date (mockRecord\<lparr>raw_sale_date := ''01/01/2025''\<rparr>) \<noteq> []
   \<and> rejectionReason mockConfig weekOfJan6 (mockRecord\<lparr>raw_sale_date := ''01/01/2025''\<rparr>)
       = Some OutsideDateRange
   \<and> raw_sale_date (mockRecord\<lparr>raw_sale_date := ''last week''\<rparr>) \<noteq> []
   \<and> \<not> usDateShape (raw_sale_date (mockRecord\<lparr>raw_sale_date := ''last week''\<rparr>))
   \<and> length (splitOn (CHR ''-'') (raw_sale_date (mockRecord\<lparr>raw_sale_date := ''last week''\<rparr>))) < 3
   \<and> rejectionReason mockConfig weekOfJan6 (mockRecord\<lparr>raw_sale_date := ''last week''\<rparr>)
       = Some OutsideDateRange"
proof -
  have e: "raw_sale_date (mockRecord\<lparr>raw_sale_date := []\<rparr>) = []"
    by simp
  from filterRecords_date_predicate
    [of "mockRecord\<lparr>raw_sale_date := []\<rparr>" mockConfig weekOfJan6 "[]"] e
  have a: "rejectionReason mockConfig weekOfJan6 (mockRecord\<lparr>raw_sale_date := []\<rparr>)
       \<noteq> Some OutsideDateRange"
    by blast
  have n: "raw_sale_date (mockRecord\<lparr>raw_sale_date := ''01/01/2025''\<rparr>) \<noteq> []"
    by simp
  from filterRecords_date_predicate
    [of "mockRecord\<lparr>raw_sale_date := ''01/01/2025''\<rparr>" mockConfig weekOfJan6 "[]"] n
  have "(rejectionReason mockConfig weekOfJan6 (mockRecord\<lparr>raw_sale_date := ''01/01/2025''\<rparr>)
         = Some OutsideDateRange)
      = (\<not> isDateInRange
             (parseSaleDate (raw_sale_date (mockRecord\<lparr>raw_sale_date := ''01/01/2025''\<rparr>)))
             weekOfJan6)"
    by blast
  with new_year_out_of_range
  have b: "rejectionReason mockConfig weekOfJan6 (mockRecord\<lparr>raw_sale_date := ''01/01/2025''\<rparr>)
       = Some OutsideDateRange"
    by simp
  have h: "raw_sale_date (mockRecord\<lparr>raw_sale_date := ''last week''\<rparr>) \<noteq> []
      \<and> \<not> usDateShape (raw_sale_date (mockRecord\<lparr>raw_sale_date := ''last week''\<rparr>))
      \<and> length (splitOn (CHR ''-'') (raw_sale_date (mockRecord\<lparr>raw_sale_date := ''last week''\<rparr>))) < 3"
    using words_not_usDate by simp
  from filterRecords_date_predicate
    [of "mockRecord\<lparr>raw_sale_date := ''last week''\<rparr>" mockConfig weekOfJan6 "[]"] h
  have c: "rejectionReason mockConfig weekOfJan6 (mockRecord\<lparr>raw_sale_date := ''last week''\<rparr>)
       = Some OutsideDateRange"
    by blast
  from e a undated_passes n b h c show ?thesis
    by (intro conjI) blast+
qed

text \<open>
  Claim C10 as stated fails: the sale date \<^verbatim>\<open>2025-1-8\<close> is not empty and is neither of
  shape \<open>M/D/YYYY\<close> nor of shape \<open>YYYY-MM-DD\<close>, so \<^verbatim>\<open>parseSaleDate\<close> returns it
  unchanged; \<^verbatim>\<open>parseDate\<close> then reads the fields 2025, 1 and 8 as 8 January 2025, which
  lies in the week of 6 January 2025, and the record passes the filter.
\<close>

theorem unparseable_date_passes_counterexample:
  "raw_sale_date (mockRecord\<lparr>raw_sale_date := ''2025-1-8''\<rparr>) \<noteq> []
   \<and> \<not> usDateShape (raw_sale_date (mockRecord\<lparr>raw_sale_date := ''2025-1-8''\<rparr>))
   \<and> \<not> isIsoDate (raw_sale_date (mockRecord\<lparr>raw_sale_date := ''2025-1-8''\<rparr>))
   \<and> filterRecords [mockRecord\<lparr>raw_sale_date := ''2025-1-8''\<rparr>] mockConfig weekOfJan6
     = \<lparr>passed = [mockRecord\<lparr>raw_sale_date := ''2025-1-8''\<rparr>], filtered = [],
        reasons = \<lparr>lowSalePrice = 0, deniedInstrument = 0, outsideDateRange = 0,
                   nonResidential = 0, qualifiedSaleFailed = 0, other = 0\<rparr>\<rparr>"
proof -
  have "rejectionReason mockConfig weekOfJan6 (mockRecord\<lparr>raw_sale_date := ''2025-1-8''\<rparr>) = None"
    by (simp add: rejectionReason_firstFailure mockConfig_def weekOfJan6_def mockRecord_def
        filter_eval date_eval number_eval string_eval Let_def)
  then have "filterRecords [mockRecord\<lparr>raw_sale_date := ''2025-1-8''\<rparr>] mockConfig weekOfJan6
     = \<lparr>passed = [mockRecord\<lparr>raw_sale_date := ''2025-1-8''\<rparr>], filtered = [],
        reasons = \<lparr>lowSalePrice = 0, deniedInstrument = 0, outsideDateRange = 0,
                   nonResidential = 0, qualifiedSaleFailed = 0, other = 0\<rparr>\<rparr>"
    by (simp add: filterRecords_def)
  moreover have "\<not> usDateShape ''2025-1-8''"
    by (simp add: usDateShape_iff matchUsDate_def isDigit_def)
  moreover have "\<not> isIsoDate ''2025-1-8''"
    by (simp add: isIsoDate_def)
  ultimately show ?thesis
    by simp
qed

section \<open>The cleaned record\<close>

lemma digit_not_space: "isDigit c \<Longrightarrow> \<not> isSpace c"
  by (auto simp: isDigit_def isSpace_def)

lemma scanUnsigned_digits:
  assumes "ds \<noteq> []" "list_all isDigit ds"
  shows "scanUnsigned ds = Some (Fin (of_nat (digitsVal ds)), [])"
proof -
  from assms obtain c cs where ds: "ds = c # cs" "isDigit c"
    by (cases ds) auto
  then have "\<not> startsWith ds ''Infinity''"
    by (auto simp: isDigit_def)
  moreover have run: "takeWhile isDigit ds = ds" "dropWhile isDigit ds = []"
    using assms(2) by (simp_all add: list_all_iff)
  ultimately show ?thesis
    using assms(1) unfolding scanUnsigned_def Let_def run
    by (simp add: scanExponent_def pow10_def)
qed

lemma parseFloat_digits:
  assumes "ds \<noteq> []" "list_all isDigit ds"
  shows "parseFloat ds = Fin (of_nat (digitsVal ds))"
proof -
  from assms obtain c cs where ds: "ds = c # cs" "isDigit c"
    by (cases ds) auto
  then have "trimStart ds = ds"
    by (simp add: trimStart_def digit_not_space)
  moreover from ds have "\<not> startsWith ds ''+''" "\<not> startsWith ds ''-''"
    by (auto simp: isDigit_def)
  ultimately show ?thesis
    using scanUnsigned_digits [OF assms] by (simp add: parseFloat_def scanDecimal_def)
qed

lemma parseSalePrice_digits:
  assumes "stripCurrency s = ds" "ds \<noteq> []" "list_all isDigit ds"
  shows "parseSalePrice s = Fin (of_nat (digitsVal ds))"
proof -
  from assms have "s \<noteq> []"
    by (auto simp: stripCurrency_def)
  then show ?thesis
    using assms parseFloat_digits [of ds] by (simp add: parseSalePrice_def Let_def)
qed

lemma cleaned_date_iso:
  assumes "usDateShape s \<or> isIsoDate s"
  shows "isIsoDate (parseSaleDate s)"
proof -
  from assms consider (us) m d y where "usDateParts m d y" "s = m @ ''/'' @ d @ ''/'' @ y"
    | (iso) "isIsoDate s"
    by (auto simp: usDateShape_def)
  then show ?thesis
  proof cases
    case us
    have "parseSaleDate (m @ ''/'' @ d @ ''/'' @ y)
        = y @ ''-'' @ padStart 2 (CHR ''0'') m @ ''-'' @ padStart 2 (CHR ''0'') d"
      unfolding parseSaleDate_def matchUsDate_parts [OF us(1)]
      by (simp del: append_Cons append_Nil)
    then show ?thesis
      using isIsoDate_padded [OF us(1)] us(2) by simp
  next
    case iso
    then have "s \<noteq> []"
      by (auto simp: isIsoDate_def)
    with iso show ?thesis
      by (simp add: parseSaleDate_def isIsoDate_no_usDate)
  qed
qed

lemma cleaned_date_same:
  assumes "\<not> usDateShape s"
  shows "parseSaleDate s = s"
proof -
  from assms have "matchUsDate s = None"
    by (cases "matchUsDate s") (simp_all add: usDateShape_iff)
  then show ?thesis
    by (simp add: parseSaleDate_def)
qed

lemma mock_price_digits: "stripCurrency (raw_sale_price mockRecord) = ''250000''"
  by (simp add: stripCurrency_def mockRecord_def isSpace_def)

lemma mock_date_shape: "usDateShape (raw_sale_date mockRecord)"
  by (simp add: usDateShape_iff mockRecord_def matchUsDate_def isDigit_def)

text \<open>
  Claim C3, as the code has it. In the record that \<^verbatim>\<open>transformRecord\<close> builds, the
  owner's mailing address is \<^verbatim>\<open>null\<close> and the owner's name is \<^verbatim>\<open>null\<close> when the cleaned
  name is empty, never the empty string. The sale date is \<^verbatim>\<open>parseSaleDate\<close> of the raw
  date: empty for an empty raw date, of shape \<open>YYYY-MM-DD\<close> when the raw date has the shape
  \<open>M/D/YYYY\<close> or \<open>YYYY-MM-DD\<close>, and the raw text unchanged when it has not the shape
  \<open>M/D/YYYY\<close>. The sale price is \<^verbatim>\<open>parseSalePrice\<close> of the raw price: 0 for an empty raw
  price, and the non-negative integer that the digits denote when the raw price without
  dollar signs, commas and white space is a run of one to fifteen digits.
\<close>

theorem transformRecord_fields:
  "cs_owner_mailing_address (transformRecord now r) = None
   \<and> cs_owner_name (transformRecord now r)
       = (if cleanOwnerName (raw_owner_name r) = [] then None
          else Some (cleanOwnerName (raw_owner_name r)))
   \<and> cs_owner_name (transformRecord now r) \<noteq> Some []
   \<and> cs_sale_date (transformRecord now r) = parseSaleDate (raw_sale_date r)
   \<and> (raw_sale_date r = [] \<longrightarrow> cs_sale_date (transformRecord now r) = [])
   \<and> (usDateShape (raw_sale_date r) \<or> isIsoDate (raw_sale_date r) \<longrightarrow>
        isIsoDate (cs_sale_date (transformRecord now r)))
   \<and> (\<not> usDateShape (raw_sale_date r) \<longrightarrow>
        cs_sale_date (transformRecord now r) = raw_sale_date r)
   \<and> cs_sale_price (transformRecord now r) = parseSalePrice (raw_sale_price r)
   \<and> (raw_sale_price r = [] \<longrightarrow> cs_sale_price (transformRecord now r) = Fin 0)
   \<and> (stripCurrency (raw_sale_price r) = ds \<and> ds \<noteq> [] \<and> list_all isDigit ds \<and> length ds \<le> 15 \<longrightarrow>
        cs_sale_price (transformRecord now r) = Fin (of_nat (digitsVal ds))
        \<and> isNonNegativeInteger (cs_sale_price (transformRecord now r)))"
proof -
  have date: "cs_sale_date (transformRecord now r) = parseSaleDate (raw_sale_date r)"
    and price: "cs_sale_price (transformRecord now r) = parseSalePrice (raw_sale_price r)"
    and owner: "cs_owner_name (transformRecord now r)
       = (if cleanOwnerName (raw_owner_name r) = [] then None
          else Some (cleanOwnerName (raw_owner_name r)))"
    and mail: "cs_owner_mailing_address (transformRecord now r) = None"
    by (simp_all add: transformRecord_def Let_def)
  have named: "cs_owner_name (transformRecord now r) \<noteq> Some []"
    by (simp add: owner)
  have empty_date: "raw_sale_date r = [] \<longrightarrow> cs_sale_date (transformRecord now r) = []"
    by (simp add: date parseSaleDate_def)
  have iso_date: "usDateShape (raw_sale_date r) \<or> isIsoDate (raw_sale_date r) \<longrightarrow>
        isIsoDate (cs_sale_date (transformRecord now r))"
    unfolding date using cleaned_date_iso [of "raw_sale_date r"] by blast
  have same_date: "\<not> usDateShape (raw_sale_date r) \<longrightarrow>
        cs_sale_date (transformRecord now r) = raw_sale_date r"
    unfolding date using cleaned_date_same [of "raw_sale_date r"] by blast
  have empty_price: "raw_sale_price r = [] \<longrightarrow> cs_sale_price (transformRecord now r) = Fin 0"
    by (simp add: price parseSalePrice_def)
  have digits: "stripCurrency (raw_sale_price r) = ds \<and> ds \<noteq> [] \<and> list_all isDigit ds
        \<and> length ds \<le> 15 \<longrightarrow>
        cs_sale_price (transformRecord now r) = Fin (of_nat (digitsVal ds))
        \<and> isNonNegativeInteger (cs_sale_price (transformRecord now r))"
  proof
    assume "stripCurrency (raw_sale_price r) = ds \<and> ds \<noteq> [] \<and> list_all isDigit ds
        \<and> length ds \<le> 15"
    then have "parseSalePrice (raw_sale_price r) = Fin (of_nat (digitsVal ds))"
      using parseSalePrice_digits [of "raw_sale_price r" ds] by blast
    then show "cs_sale_price (transformRecord now r) = Fin (of_nat (digitsVal ds))
        \<and> isNonNegativeInteger (cs_sale_price (transformRecord now r))"
      by (simp add: price isNonNegativeInteger_def)
  qed
  from mail owner named date empty_date iso_date same_date price empty_price digits
  show ?thesis
    by (intro conjI)
qed

theorem transformRecord_fields_witness:
  "cs_owner_mailing_address (transformRecord ''2025-01-15T06:00:00.000Z'' mockRecord) = None
   \<and> cs_owner_name (transformRecord ''2025-01-15T06:00:00.000Z'' mockRecord) = Some ''John Doe''
   \<and> cs_sale_date (transformRecord ''2025-01-15T06:00:00.000Z'' mockRecord) = ''2025-01-08''
   \<and> isIsoDate (cs_sale_date (transformRecord ''2025-01-15T06:00:00.000Z'' mockRecord))
   \<and> cs_sale_price (transformRecord ''2025-01-15T06:00:00.000Z'' mockRecord) = Fin 250000
   \<and> isNonNegativeInteger (cs_sale_price (transformRecord ''2025-01-15T06:00:00.000Z'' mockRecord))
   \<and> cs_owner_name
         (transformRecord ''2025-01-15T06:00:00.000Z'' (mockRecord\<lparr>raw_owner_name := []\<rparr>)) = None"
proof -
  note spec = transformRecord_fields [of "''2025-01-15T06:00:00.000Z''" mockRecord "''250000''"]
  have digits: "list_all isDigit ''250000''" "digitsVal ''250000'' = 250000"
    by (simp_all add: isDigit_def digitsVal_def digitVal_def)
  have owner: "cleanOwnerName (raw_owner_name mockRecord) = ''John Doe''"
    by (simp add: cleanOwnerName_def mockRecord_def isWordChar_def string_eval)
  have date: "parseSaleDate (raw_sale_date mockRecord) = ''2025-01-08''"
    by (simp add: mockRecord_def date_eval string_eval)
  from spec
  have "stripCurrency (raw_sale_price mockRecord) = ''250000'' \<and> ''250000'' \<noteq> []
      \<and> list_all isDigit ''250000'' \<and> length ''250000'' \<le> 15 \<longrightarrow>
      cs_sale_price (transformRecord ''2025-01-15T06:00:00.000Z'' mockRecord)
        = Fin (of_nat (digitsVal ''250000''))
      \<and> isNonNegativeInteger (cs_sale_price (transformRecord ''2025-01-15T06:00:00.000Z'' mockRecord))"
    by blast
  moreover have "stripCurrency (raw_sale_price mockRecord) = ''250000'' \<and> ''250000'' \<noteq> []
      \<and> list_all isDigit ''250000'' \<and> length ''250000'' \<le> 15"
    using mock_price_digits digits(1) by simp
  ultimately
  have "cs_sale_price (transformRecord ''2025-01-15T06:00:00.000Z'' mockRecord)
        = Fin (of_nat (digitsVal ''250000''))
      \<and> isNonNegativeInteger (cs_sale_price (transformRecord ''2025-01-15T06:00:00.000Z'' mockRecord))"
    by (rule mp)
  then
  have price: "cs_sale_price (transformRecord ''2025-01-15T06:00:00.000Z'' mockRecord) = Fin 250000"
      "isNonNegativeInteger (cs_sale_price (transformRecord ''2025-01-15T06:00:00.000Z'' mockRecord))"
    unfolding digits(2) by (simp, blast)
  from spec mock_date_shape
  have iso: "isIsoDate (cs_sale_date (transformRecord ''2025-01-15T06:00:00.000Z'' mockRecord))"
    by blast
  from spec owner date
  have rest: "cs_owner_mailing_address (transformRecord ''2025-01-15T06:00:00.000Z'' mockRecord) = None"
      "cs_owner_name (transformRecord ''2025-01-15T06:00:00.000Z'' mockRecord) = Some ''John Doe''"
      "cs_sale_date (transformRecord ''2025-01-15T06:00:00.000Z'' mockRecord) = ''2025-01-08''"
    by simp_all
  have none: "cs_owner_name
         (transformRecord ''2025-01-15T06:00:00.000Z'' (mockRecord\<lparr>raw_owner_name := []\<rparr>)) = None"
    using transformRecord_fields
      [of "''2025-01-15T06:00:00.000Z''" "mockRecord\<lparr>raw_owner_name := []\<rparr>" "[]"]
    by (simp add: cleanOwnerName_def)
  from rest iso price none show ?thesis
    by (intro conjI)
qed

text \<open>
  Claim C3 as stated fails. The raw price \<^verbatim>\<open>$250,000.50\<close> gives the sale price 250000.5,
  which is not an integer, and the raw date \<^verbatim>\<open>Jan 8, 2025\<close> is passed through, which is
  neither empty nor of shape \<open>YYYY-MM-DD\<close>.
\<close>

theorem transformRecord_invariant_counterexample:
  "\<not> isNonNegativeInteger
       (cs_sale_price (transformRecord ''2025-01-15T06:00:00.000Z''
          (mockRecord\<lparr>raw_sale_price := ''$250,000.50''\<rparr>)))
   \<and> \<not> isIsoDate
       (cs_sale_date (transformRecord ''2025-01-15T06:00:00.000Z''
          (mockRecord\<lparr>raw_sale_date := ''Jan 8, 2025''\<rparr>)))
   \<and> cs_sale_date (transformRecord ''2025-01-15T06:00:00.000Z''
          (mockRecord\<lparr>raw_sale_date := ''Jan 8, 2025''\<rparr>)) \<noteq> []"
proof -
  have "parseSalePrice ''$250,000.50'' = Fin (500001 / 2)"
    by (simp add: number_eval string_eval Let_def)
  then have price: "cs_sale_price (transformRecord ''2025-01-15T06:00:00.000Z''
          (mockRecord\<lparr>raw_sale_price := ''$250,000.50''\<rparr>)) = Fin (500001 / 2)"
    by (simp add: transformRecord_def Let_def)
  have "\<lfloor>500001 / 2 :: rat\<rfloor> = 250000"
    by (simp add: floor_eq_iff)
  then have "\<not> isNonNegativeInteger (Fin (500001 / 2))"
    by (simp add: isNonNegativeInteger_def)
  moreover have "parseSaleDate ''Jan 8, 2025'' = ''Jan 8, 2025''"
    by (simp add: date_eval string_eval)
  then have "cs_sale_date (transformRecord ''2025-01-15T06:00:00.000Z''
          (mockRecord\<lparr>raw_sale_date := ''Jan 8, 2025''\<rparr>)) = ''Jan 8, 2025''"
    by (simp add: transformRecord_def Let_def)
  moreover have "\<not> isIsoDate ''Jan 8, 2025''"
    by (simp add: isIsoDate_def)
  ultimately show ?thesis
    using price by simp
qed

section \<open>Address components\<close>

lemma stateZipAt_Some:
  assumes "stateZipAt s = Some (whole, st, zipGroup)"
  shows "\<exists>a b ws z. s = [a, b] @ ws @ z \<and> isLetter a \<and> isLetter b \<and> list_all isSpace ws
           \<and> (z = [] \<or> isZip5 z \<or> isZip9 z)
           \<and> whole = s \<and> st = [a, b] \<and> zipGroup = (if z = [] then None else Some z)"
proof -
  from assms obtain a b rest where s: "s = a # b # rest"
    by (auto simp: stateZipAt_def split: list.splits)
  define z where "z = dropWhile isSpace rest"
  define ws where "ws = takeWhile isSpace rest"
  have rest: "rest = ws @ z"
    by (simp add: ws_def z_def)
  have sp: "list_all isSpace ws"
    by (simp add: ws_def list_all_iff) (meson set_takeWhileD)
  from assms s have "isLetter a" "isLetter b" "z = [] \<or> isZip5 z \<or> isZip9 z"
    "whole = s" "st = [a, b]" "zipGroup = (if z = [] then None else Some z)"
    by (auto simp: stateZipAt_def z_def Let_def split: if_splits)
  with s rest sp show ?thesis
    by auto
qed

lemma zip_not_space:
  assumes "isZip5 z \<or> isZip9 z"
  shows "z \<noteq> [] \<and> \<not> isSpace (hd z)"
proof -
  from assms have ne: "z \<noteq> []"
    by (auto simp: isZip5_def isZip9_def)
  from assms have "list_all isDigit (take 5 z)"
    by (auto simp: isZip5_def isZip9_def)
  moreover have "hd z \<in> set (take 5 z)"
    using ne by (cases z) simp_all
  ultimately have "isDigit (hd z)"
    by (simp add: list_all_iff)
  with ne show ?thesis
    by (auto simp: isDigit_def isSpace_def)
qed

lemma dropWhile_spaces_then:
  assumes "list_all isSpace ws" "z = [] \<or> \<not> isSpace (hd z)"
  shows "dropWhile isSpace (ws @ z) = z"
  using assms
proof (induction ws)
  case Nil
  then show ?case by (cases z) simp_all
next
  case (Cons w ws)
  then show ?case by simp
qed

lemma stateZipAt_shape:
  assumes "isLetter a" "isLetter b" "list_all isSpace ws" "z = [] \<or> isZip5 z \<or> isZip9 z"
  shows "stateZipAt ([a, b] @ ws @ z)
         = Some ([a, b] @ ws @ z, [a, b], if z = [] then None else Some z)"
proof -
  have "z = [] \<or> \<not> isSpace (hd z)"
    using assms(4) zip_not_space [of z] by blast
  with assms(3) have dw: "dropWhile isSpace (ws @ z) = z"
    by (rule dropWhile_spaces_then)
  show ?thesis
    using assms(1,2,4) by (auto simp: stateZipAt_def Let_def dw simp del: dropWhile_eq_Nil_conv)
qed

lemma stateZipMatch_Some:
  assumes "stateZipMatch s = Some (whole, st, zipGroup)"
  shows "\<exists>before. s = before @ whole \<and> stateZipAt whole = Some (whole, st, zipGroup)"
  using assms
proof (induction s)
  case Nil
  then show ?case by simp
next
  case (Cons c cs)
  show ?case
  proof (cases "stateZipAt (c # cs)")
    case None
    with Cons obtain before where "cs = before @ whole"
        "stateZipAt whole = Some (whole, st, zipGroup)"
      by auto
    then have "c # cs = (c # before) @ whole \<and> stateZipAt whole = Some (whole, st, zipGroup)"
      by simp
    then show ?thesis ..
  next
    case (Some m)
    with Cons.prems have m: "m = (whole, st, zipGroup)"
      by simp
    with Some have "whole = c # cs"
      using stateZipAt_Some [of "c # cs" whole st zipGroup] by auto
    with Some m have "c # cs = [] @ whole \<and> stateZipAt whole = Some (whole, st, zipGroup)"
      by simp
    then show ?thesis ..
  qed
qed

lemma stateZipMatch_suffix:
  "stateZipAt t \<noteq> None \<Longrightarrow> stateZipMatch (before @ t) \<noteq> None"
proof (induction before)
  case Nil
  then show ?case
    by (cases t) (auto simp: stateZipAt_def)
next
  case (Cons c before)
  then show ?case
    by (cases "stateZipAt (c # before @ t)") auto
qed

lemma stateZipMatch_iff: "stateZipMatch s \<noteq> None \<longleftrightarrow> endsWithStateZip s"
proof
  assume "stateZipMatch s \<noteq> None"
  then obtain whole st zipGroup where "stateZipMatch s = Some (whole, st, zipGroup)"
    by auto
  from stateZipMatch_Some [OF this] obtain before where
    b: "s = before @ whole" "stateZipAt whole = Some (whole, st, zipGroup)"
    by auto
  from stateZipAt_Some [OF b(2)] obtain a b' ws z where
    "whole = [a, b'] @ ws @ z" "isLetter a" "isLetter b'" "list_all isSpace ws"
    "z = [] \<or> isZip5 z \<or> isZip9 z"
    by auto
  with b(1) show "endsWithStateZip s"
    unfolding endsWithStateZip_def by blast
next
  assume "endsWithStateZip s"
  then obtain before a b ws z where s: "s = before @ [a, b] @ ws @ z"
    and sh: "isLetter a" "isLetter b" "list_all isSpace ws" "z = [] \<or> isZip5 z \<or> isZip9 z"
    unfolding endsWithStateZip_def by blast
  have "stateZipAt ([a, b] @ ws @ z) \<noteq> None"
    using stateZipAt_shape [OF sh] by simp
  then show "stateZipMatch s \<noteq> None"
    unfolding s by (rule stateZipMatch_suffix)
qed


lemma parseAddress_cases:
  assumes "fullAddress \<noteq> []" "parts = map trim (splitOn (CHR '','') fullAddress)"
  shows "parseAddress fullAddress =
     (if length parts \<ge> 2 then
        (case stateZipMatch (last parts) of
           None \<Rightarrow> \<lparr>street = hd parts, city = parts ! 1, state = ''TN'', zip = []\<rparr>
         | Some (whole, st, zipGroup) \<Rightarrow>
             \<lparr>street = hd parts,
              city = (if length parts > 2 then join '', '' (butlast (tl parts))
                      else trim (removeFirst (last parts) whole)),
              state = toUpperCase st,
              zip = (case zipGroup of Some z \<Rightarrow> z | None \<Rightarrow> [])\<rparr>)
      else \<lparr>street = fullAddress, city = [], state = ''TN'', zip = []\<rparr>)"
proof -
  have ne: "parts \<noteq> []"
    using assms(2) splitOn_nonempty by simp
  then have "parts ! (length parts - 1) = last parts" "parts ! 0 = hd parts"
    by (simp_all add: last_conv_nth hd_conv_nth)
  then show ?thesis
    using assms by (auto simp: parseAddress_def Let_def split: option.splits)
qed

lemma splitOn_length: "length (splitOn c s) = Suc (length (filter (\<lambda>x. x = c) s))"
  by (induction s) (auto split: list.splits simp: splitOn_nonempty)


lemma no_comma_one_part: "CHR '','' \<notin> set s \<Longrightarrow> length (splitOn (CHR '','') s) = 1"
proof -
  assume "CHR '','' \<notin> set s"
  then have "filter (\<lambda>x. x = CHR '','') s = []"
    by (induction s) auto
  then show ?thesis
    by (simp add: splitOn_length)
qed

lemmas address_eval = stateZipAt_def isZip5_def isZip9_def parseAddress_def

lemma unit_parts:
  "map trim (splitOn (CHR '','') ''123 Main St, Unit 5'') = [''123 Main St'', ''Unit 5'']"
  by (simp add: string_eval)

lemma unit_no_state: "stateZipMatch ''Unit 5'' = None"
  by (simp add: address_eval string_eval)

lemma covington_parts:
  "map trim (splitOn (CHR '','') ''123 Main St, Covington TN 38019'')
   = [''123 Main St'', ''Covington TN 38019'']"
  by (simp add: string_eval)

lemma covington_state:
  "stateZipMatch ''Covington TN 38019'' = Some (''TN 38019'', ''TN'', Some ''38019'')"
  by (simp add: address_eval string_eval Let_def)

text \<open>
  Claim C7, as the code has it. The matcher of \<^verbatim>\<open>parseAddress\<close> finds nothing exactly
  when the text does not end in a state and an optional ZIP code. For a non-empty address
  with at least two comma-separated segments: when the last segment does not end so, the
  street is the first segment, the city the second, the state \<open>TN\<close> and the ZIP code
  empty; when it does, the state is the two letters in upper case, the ZIP code the
  digits that follow them (empty when there are none), and the city is the middle
  segments joined by a comma and a space when there are more than two segments, and else
  the last segment without the matched text. A non-empty address without a comma is the
  street, with no city, the state \<open>TN\<close> and no ZIP code; the empty address gives four empty
  fields.
\<close>

theorem parseAddress_state_zip:
  "(stateZipMatch s = None) = (\<not> endsWithStateZip s)
   \<and> (fullAddress \<noteq> [] \<and> parts = map trim (splitOn (CHR '','') fullAddress)
        \<and> 2 \<le> length parts \<and> \<not> endsWithStateZip (last parts) \<longrightarrow>
        parseAddress fullAddress
          = \<lparr>street = hd parts, city = parts ! 1, state = ''TN'', zip = []\<rparr>)
   \<and> (fullAddress \<noteq> [] \<and> parts = map trim (splitOn (CHR '','') fullAddress)
        \<and> 2 \<le> length parts \<and> stateZipMatch (last parts) = Some (whole, st, zipGroup) \<longrightarrow>
        parseAddress fullAddress
          = \<lparr>street = hd parts,
             city = (if 2 < length parts then join '', '' (butlast (tl parts))
                     else trim (removeFirst (last parts) whole)),
             state = toUpperCase st,
             zip = (case zipGroup of Some z \<Rightarrow> z | None \<Rightarrow> [])\<rparr>
        \<and> (\<exists>before ws z. last parts = before @ whole \<and> whole = st @ ws @ z
              \<and> length st = 2 \<and> list_all isLetter st \<and> list_all isSpace ws
              \<and> (z = [] \<or> isZip5 z \<or> isZip9 z)
              \<and> zipGroup = (if z = [] then None else Some z)))
   \<and> (fullAddress \<noteq> [] \<and> CHR '','' \<notin> set fullAddress \<longrightarrow>
        parseAddress fullAddress
          = \<lparr>street = fullAddress, city = [], state = ''TN'', zip = []\<rparr>)
   \<and> parseAddress [] = \<lparr>street = [], city = [], state = [], zip = []\<rparr>"
proof (intro conjI impI)
  show "(stateZipMatch s = None) = (\<not> endsWithStateZip s)"
    using stateZipMatch_iff [of s] by blast
next
  assume a: "fullAddress \<noteq> [] \<and> parts = map trim (splitOn (CHR '','') fullAddress)
        \<and> 2 \<le> length parts \<and> \<not> endsWithStateZip (last parts)"
  then have m: "stateZipMatch (last parts) = None"
    using stateZipMatch_iff [of "last parts"] by blast
  from a have ne: "fullAddress \<noteq> []" and pe: "parts = map trim (splitOn (CHR '','') fullAddress)"
    and len: "2 \<le> length parts"
    by blast+
  show "parseAddress fullAddress
          = \<lparr>street = hd parts, city = parts ! 1, state = ''TN'', zip = []\<rparr>"
    unfolding parseAddress_cases [OF ne pe] using len by (simp add: m)
next
  assume a: "fullAddress \<noteq> [] \<and> parts = map trim (splitOn (CHR '','') fullAddress)
        \<and> 2 \<le> length parts \<and> stateZipMatch (last parts) = Some (whole, st, zipGroup)"
  then have ne: "fullAddress \<noteq> []" and pe: "parts = map trim (splitOn (CHR '','') fullAddress)"
    and len: "2 \<le> length parts" and m: "stateZipMatch (last parts) = Some (whole, st, zipGroup)"
    by blast+
  show "parseAddress fullAddress
          = \<lparr>street = hd parts,
             city = (if 2 < length parts then join '', '' (butlast (tl parts))
                     else trim (removeFirst (last parts) whole)),
             state = toUpperCase st,
             zip = (case zipGroup of Some z \<Rightarrow> z | None \<Rightarrow> [])\<rparr>"
    unfolding parseAddress_cases [OF ne pe] using len by (simp add: m)
  from stateZipMatch_Some [OF m] obtain before where
    b: "last parts = before @ whole" "stateZipAt whole = Some (whole, st, zipGroup)"
    by auto
  from stateZipAt_Some [OF b(2)] obtain c d ws z where
    "whole = [c, d] @ ws @ z" "isLetter c" "isLetter d" "list_all isSpace ws"
    "z = [] \<or> isZip5 z \<or> isZip9 z" "st = [c, d]" "zipGroup = (if z = [] then None else Some z)"
    by auto
  with b(1) have "last parts = before @ whole \<and> whole = st @ ws @ z
              \<and> length st = 2 \<and> list_all isLetter st \<and> list_all isSpace ws
              \<and> (z = [] \<or> isZip5 z \<or> isZip9 z)
              \<and> zipGroup = (if z = [] then None else Some z)"
    by simp
  then show "\<exists>before ws z. last parts = before @ whole \<and> whole = st @ ws @ z
              \<and> length st = 2 \<and> list_all isLetter st \<and> list_all isSpace ws
              \<and> (z = [] \<or> isZip5 z \<or> isZip9 z)
              \<and> zipGroup = (if z = [] then None else Some z)"
    by blast
next
  assume a: "fullAddress \<noteq> [] \<and> CHR '','' \<notin> set fullAddress"
  then have one: "length (map trim (splitOn (CHR '','') fullAddress)) = 1"
    by (simp add: no_comma_one_part)
  from a have ne: "fullAddress \<noteq> []"
    by blast
  show "parseAddress fullAddress
          = \<lparr>street = fullAddress, city = [], state = ''TN'', zip = []\<rparr>"
    unfolding parseAddress_cases [OF ne refl] using one by simp
next
  show "parseAddress [] = \<lparr>street = [], city = [], state = [], zip = []\<rparr>"
    by (simp add: parseAddress_def)
qed

theorem parseAddress_state_zip_witness:
  "\<not> endsWithStateZip ''Unit 5''
   \<and> parseAddress ''123 Main St, Unit 5''
       = \<lparr>street = ''123 Main St'', city = ''Unit 5'', state = ''TN'', zip = []\<rparr>
   \<and> parseAddress ''123 Main St, Covington TN 38019''
       = \<lparr>street = ''123 Main St'', city = ''Covington'', state = ''TN'', zip = ''38019''\<rparr>
   \<and> parseAddress ''123 Main St''
       = \<lparr>street = ''123 Main St'', city = [], state = ''TN'', zip = []\<rparr>"
proof -
  note unit = parseAddress_state_zip
    [of "''Unit 5''" "''123 Main St, Unit 5''" "[''123 Main St'', ''Unit 5'']" "[]" "[]" None]
  note cov = parseAddress_state_zip
    [of "[]" "''123 Main St, Covington TN 38019''" "[''123 Main St'', ''Covington TN 38019'']"
      "''TN 38019''" "''TN''" "Some ''38019''"]
  note plain = parseAddress_state_zip [of "[]" "''123 Main St''" "[]" "[]" "[]" None]
  from unit unit_no_state have no: "\<not> endsWithStateZip ''Unit 5''"
    by blast
  from unit no unit_parts
  have a: "parseAddress ''123 Main St, Unit 5''
       = \<lparr>street = ''123 Main St'', city = ''Unit 5'', state = ''TN'', zip = []\<rparr>"
    by simp
  have "trim (removeFirst ''Covington TN 38019'' ''TN 38019'') = ''Covington''"
    by (simp add: string_eval)
  with cov covington_parts covington_state
  have b: "parseAddress ''123 Main St, Covington TN 38019''
       = \<lparr>street = ''123 Main St'', city = ''Covington'', state = ''TN'', zip = ''38019''\<rparr>"
    by (simp add: toUpperCase_def upperChar_def)
  from plain
  have c: "parseAddress ''123 Main St''
       = \<lparr>street = ''123 Main St'', city = [], state = ''TN'', zip = []\<rparr>"
    by simp
  from no a b c show ?thesis
    by (intro conjI)
qed

text \<open>
  Claim C7 as stated fails at the empty address: its only segment is empty and does not
  end in a state and a ZIP code, and the state returned is the empty string, not \<open>TN\<close>.
\<close>

theorem parseAddress_empty_counterexample:
  "\<not> endsWithStateZip (last (splitOn (CHR '','') []))
   \<and> state (parseAddress []) \<noteq> ''TN''"
proof -
  have "stateZipMatch [] = None"
    by simp
  then have "\<not> endsWithStateZip []"
    using stateZipMatch_iff [of "[]"] by blast
  then show ?thesis
    by (simp add: parseAddress_def)
qed

section \<open>Summary statistics\<close>











section \<open>Deduplication of cleaned sales\<close>

lemma cleanedLoop_acc:
  "cleanedLoop sales seenByKey seenByAddress unique
   = unique @ cleanedLoop sales seenByKey seenByAddress []"
proof (induction sales arbitrary: seenByKey seenByAddress unique)
  case Nil
  show ?case by simp
next
  case (Cons sale sales)
  show ?case
    using Cons.IH [of seenByKey seenByAddress unique]
      Cons.IH [of "insert (generateCleanedSaleKey sale) seenByKey"
        "insert (generateAddressKey sale) seenByAddress" "unique @ [sale]"]
      Cons.IH [of "insert (generateCleanedSaleKey sale) seenByKey"
        "insert (generateAddressKey sale) seenByAddress" "[sale]"]
    by (simp add: Let_def)
qed

lemma cleanedLoop_fresh:
  assumes "kept = cleanedLoop sales seenByKey seenByAddress []"
  shows "(\<forall>s \<in> set kept. generateCleanedSaleKey s \<notin> seenByKey
            \<and> generateAddressKey s \<notin> seenByAddress)
         \<and> distinct (map generateCleanedSaleKey kept)
         \<and> distinct (map generateAddressKey kept)"
  using assms
proof (induction sales arbitrary: seenByKey seenByAddress kept)
  case Nil
  then show ?case by simp
next
  case (Cons sale sales)
  show ?case
  proof (cases "generateCleanedSaleKey sale \<in> seenByKey
      \<or> generateAddressKey sale \<in> seenByAddress")
    case True
    with Cons.prems have "kept = cleanedLoop sales seenByKey seenByAddress []"
      by (simp add: Let_def)
    then show ?thesis
      by (rule Cons.IH)
  next
    case False
    define rest where "rest = cleanedLoop sales (insert (generateCleanedSaleKey sale) seenByKey)
      (insert (generateAddressKey sale) seenByAddress) []"
    from False Cons.prems have kept: "kept = sale # rest"
      using cleanedLoop_acc [of sales "insert (generateCleanedSaleKey sale) seenByKey"
          "insert (generateAddressKey sale) seenByAddress" "[sale]"]
      by (simp add: Let_def rest_def)
    from Cons.IH [OF rest_def] False show ?thesis
      unfolding kept by auto
  qed
qed

lemma cleanedLoop_unchanged:
  assumes "\<forall>s \<in> set sales. generateCleanedSaleKey s \<notin> seenByKey
            \<and> generateAddressKey s \<notin> seenByAddress"
    and "distinct (map generateCleanedSaleKey sales)"
    and "distinct (map generateAddressKey sales)"
  shows "cleanedLoop sales seenByKey seenByAddress [] = sales"
  using assms
proof (induction sales arbitrary: seenByKey seenByAddress)
  case Nil
  show ?case by simp
next
  case (Cons sale sales)
  have "cleanedLoop sales (insert (generateCleanedSaleKey sale) seenByKey)
      (insert (generateAddressKey sale) seenByAddress) [] = sales"
  proof (intro Cons.IH)
    show "\<forall>s \<in> set sales. generateCleanedSaleKey s \<notin> insert (generateCleanedSaleKey sale) seenByKey
            \<and> generateAddressKey s \<notin> insert (generateAddressKey sale) seenByAddress"
      using Cons.prems by (metis distinct.simps(2) image_eqI insertE list.set_intros(2)
          list.simps(9) set_map)
    show "distinct (map generateCleanedSaleKey sales)" "distinct (map generateAddressKey sales)"
      using Cons.prems by simp_all
  qed
  then show ?case
    using Cons.prems
      cleanedLoop_acc [of sales "insert (generateCleanedSaleKey sale) seenByKey"
          "insert (generateAddressKey sale) seenByAddress" "[sale]"]
    by (simp add: Let_def)
qed

lemmas dedupe_eval =
  deduplicateCleanedSales_def generateCleanedSaleKey_def generateAddressKey_def
  normalizeParcelId_def orElse_def ownedSale_def pricedSale_def

lemma drifted_parcel_id_removed:
  "deduplicateCleanedSales
     [ownedSale ''067 05308 000'' ''JOHN DOE'' ''123 MAIN ST'' (Fin 250000),
      ownedSale ''084 00100 000'' ''JANE ROE'' ''9 OAK AVE'' (Fin 180000),
      ownedSale ''06705308000'' ''JOHN DOE'' ''123 MAIN ST'' (Fin 250000)]
   = [ownedSale ''067 05308 000'' ''JOHN DOE'' ''123 MAIN ST'' (Fin 250000),
      ownedSale ''084 00100 000'' ''JANE ROE'' ''9 OAK AVE'' (Fin 180000)]"
  by (simp add: dedupe_eval string_eval Let_def)

text \<open>
  Claim C4. \<^verbatim>\<open>deduplicateCleanedSales\<close> applied to its own output returns that output:
  the second pass removes nothing.
\<close>

theorem deduplicateCleanedSales_idempotent:
  "deduplicateCleanedSales (deduplicateCleanedSales sales) = deduplicateCleanedSales sales"
proof -
  have "(\<forall>s \<in> set (deduplicateCleanedSales sales). generateCleanedSaleKey s \<notin> {}
            \<and> generateAddressKey s \<notin> {})
         \<and> distinct (map generateCleanedSaleKey (deduplicateCleanedSales sales))
         \<and> distinct (map generateAddressKey (deduplicateCleanedSales sales))"
    by (rule cleanedLoop_fresh) (simp add: deduplicateCleanedSales_def)
  then have "cleanedLoop (deduplicateCleanedSales sales) {} {} [] = deduplicateCleanedSales sales"
    by (intro cleanedLoop_unchanged) blast+
  then show ?thesis
    by (simp add: deduplicateCleanedSales_def [of "deduplicateCleanedSales sales"])
qed

theorem deduplicateCleanedSales_idempotent_witness:
  "deduplicateCleanedSales
     [ownedSale ''067 05308 000'' ''JOHN DOE'' ''123 MAIN ST'' (Fin 250000),
      ownedSale ''084 00100 000'' ''JANE ROE'' ''9 OAK AVE'' (Fin 180000)]
   = [ownedSale ''067 05308 000'' ''JOHN DOE'' ''123 MAIN ST'' (Fin 250000),
      ownedSale ''084 00100 000'' ''JANE ROE'' ''9 OAK AVE'' (Fin 180000)]"
  using deduplicateCleanedSales_idempotent
    [of "[ownedSale ''067 05308 000'' ''JOHN DOE'' ''123 MAIN ST'' (Fin 250000),
          ownedSale ''084 00100 000'' ''JANE ROE'' ''9 OAK AVE'' (Fin 180000),
          ownedSale ''06705308000'' ''JOHN DOE'' ''123 MAIN ST'' (Fin 250000)]"]
  unfolding drifted_parcel_id_removed .

section \<open>Deduplication by owner and address\<close>



















section \<open>Bounded retry\<close>

lemma withRetryLoop_trace:
  assumes "maxRetries opts - attempt = k" "attempt \<le> maxRetries opts"
  shows "\<exists>outs s'. withRetryLoop (traced fn) opts attempt lastError (s, tr)
             = (rethrown (last outs), s', tr @ outs)
           \<and> withRetryLoop fn opts attempt lastError s = (rethrown (last outs), s')
           \<and> outs \<noteq> [] \<and> length outs \<le> Suc k
           \<and> (\<forall>r \<in> set (butlast outs). \<exists>e. r = Inl e \<and> retriedBy opts e)
           \<and> (\<forall>e. last outs = Inl e \<longrightarrow> \<not> retriedBy opts e \<or> length outs = Suc k)"
  using assms
proof (induction k arbitrary: attempt lastError s tr)
  case 0
  then have at: "attempt = maxRetries opts"
    by simp
  obtain r s' where f: "fn s = (r, s')"
    by (cases "fn s")
  have "withRetryLoop (traced fn) opts attempt lastError (s, tr) = (rethrown r, s', tr @ [r])"
    "withRetryLoop fn opts attempt lastError s = (rethrown r, s')"
    using at f
    by (subst withRetryLoop.simps, cases r, simp_all add: traced_def rethrown_def)+
  then show ?case
    by (intro exI [of _ "[r]"] exI [of _ s']) simp
next
  case (Suc k)
  then have lt: "attempt < maxRetries opts"
    by simp
  obtain r s' where f: "fn s = (r, s')"
    by (cases "fn s")
  show ?case
  proof (cases r)
    case (Inr v)
    have "withRetryLoop (traced fn) opts attempt lastError (s, tr) = (rethrown r, s', tr @ [r])"
      "withRetryLoop fn opts attempt lastError s = (rethrown r, s')"
      using lt f Inr
      by (subst withRetryLoop.simps, simp add: traced_def rethrown_def)+
    then show ?thesis
      using Inr by (intro exI [of _ "[r]"] exI [of _ s']) simp
  next
    case (Inl e)
    show ?thesis
    proof (cases "retriedBy opts e")
      case False
      have "withRetryLoop (traced fn) opts attempt lastError (s, tr) = (rethrown r, s', tr @ [r])"
        "withRetryLoop fn opts attempt lastError s = (rethrown r, s')"
        using lt f Inl False
        by (subst withRetryLoop.simps,
            simp add: traced_def rethrown_def retriedBy_def split: option.splits)+
      then show ?thesis
        using Inl False by (intro exI [of _ "[r]"] exI [of _ s']) simp
    next
      case True
      have step: "withRetryLoop (traced fn) opts attempt lastError (s, tr)
            = withRetryLoop (traced fn) opts (attempt + 1) (Some e) (s', tr @ [r])"
        "withRetryLoop fn opts attempt lastError s
            = withRetryLoop fn opts (attempt + 1) (Some e) s'"
        using lt f Inl True
        by (subst withRetryLoop.simps,
            simp add: traced_def retriedBy_def split: option.splits)+
      have "maxRetries opts - (attempt + 1) = k" "attempt + 1 \<le> maxRetries opts"
        using Suc.prems by simp_all
      from Suc.IH [OF this, of "Some e" s' "tr @ [r]"] obtain outs s'' where
        o: "withRetryLoop (traced fn) opts (attempt + 1) (Some e) (s', tr @ [r])
              = (rethrown (last outs), s'', (tr @ [r]) @ outs)"
          "withRetryLoop fn opts (attempt + 1) (Some e) s' = (rethrown (last outs), s'')"
          "outs \<noteq> []" "length outs \<le> Suc k"
          "\<forall>r \<in> set (butlast outs). \<exists>e. r = Inl e \<and> retriedBy opts e"
          "\<forall>e. last outs = Inl e \<longrightarrow> \<not> retriedBy opts e \<or> length outs = Suc k"
        by blast
      show ?thesis
        using o step Inl True by (intro exI [of _ "r # outs"] exI [of _ s'']) auto
    qed
  qed
qed

lemma isNetworkRetryable_iff:
  "isNetworkRetryable e
   = (\<exists>m \<in> set retryableMessages. includesStr (toLowerCase (message e)) (toLowerCase m))"
  by (simp add: isNetworkRetryable_def Let_def list_ex_iff)


lemmas retry_eval =
  withRetry_def traced_def scripted_def isNetworkRetryable_def retryableMessages_def
  rethrown_def

lemma parse_error_not_retried:
  "withRetry scripted (DEFAULT_OPTIONS\<lparr>maxRetries := 2, isRetryable := Some isNetworkRetryable\<rparr>)
     [Inl \<lparr>message = ''Navigation timeout of 30000 ms exceeded''\<rparr>,
      Inl \<lparr>message = ''Unexpected token < in JSON''\<rparr>, Inr (7 :: nat)]
   = (Inl (Some \<lparr>message = ''Unexpected token < in JSON''\<rparr>), [Inr 7])"
  by (simp add: retry_eval DEFAULT_OPTIONS_def string_eval Let_def)

lemma timeouts_exhaust_budget:
  "withRetry (traced scripted)
     (DEFAULT_OPTIONS\<lparr>maxRetries := 2, isRetryable := Some isNetworkRetryable\<rparr>)
     ([Inl \<lparr>message = ''timeout 1''\<rparr>, Inl \<lparr>message = ''timeout 2''\<rparr>,
       Inl \<lparr>message = ''ETIMEDOUT''\<rparr>, Inr (7 :: nat)], [])
   = (Inl (Some \<lparr>message = ''ETIMEDOUT''\<rparr>), [Inr 7],
      [Inl \<lparr>message = ''timeout 1''\<rparr>, Inl \<lparr>message = ''timeout 2''\<rparr>,
       Inl \<lparr>message = ''ETIMEDOUT''\<rparr>])"
  by (simp add: retry_eval DEFAULT_OPTIONS_def string_eval Let_def)


text \<open>
  Claim C9. For every operation, every state and every retry bound, \<^verbatim>\<open>withRetry\<close> invokes
  the operation at least once and at most \<open>maxRetries + 1\<close> times, and its result is the
  outcome of the last invocation: the value returned, or the error thrown, which is
  rethrown. Every invocation before the last failed with an error that the options retry.
  So an invocation that fails with an error that the classifier refuses is the last one,
  and its error is what the caller receives; and when all \<open>maxRetries + 1\<close> invocations
  have failed, the last error is rethrown. With \<^verbatim>\<open>isNetworkRetryable\<close> as classifier an
  error is retried exactly when its message, in lower case, contains one of the fixed
  substrings in lower case.
\<close>

theorem withRetry_attempts:
  "\<exists>outs s'. withRetry (traced fn) opts (s, []) = (rethrown (last outs), s', outs)
      \<and> withRetry fn opts s = (rethrown (last outs), s')
      \<and> 1 \<le> length outs \<and> length outs \<le> maxRetries opts + 1
      \<and> (\<forall>r \<in> set (butlast outs). \<exists>e. r = Inl e \<and> retriedBy opts e)
      \<and> (\<forall>i e. i < length outs \<and> outs ! i = Inl e \<and> \<not> retriedBy opts e \<longrightarrow>
            Suc i = length outs \<and> fst (withRetry fn opts s) = Inl (Some e))
      \<and> (\<forall>e. length outs = maxRetries opts + 1 \<and> last outs = Inl e \<longrightarrow>
            fst (withRetry fn opts s) = Inl (Some e))
      \<and> (\<forall>e. last outs = Inl e \<longrightarrow> \<not> retriedBy opts e \<or> length outs = maxRetries opts + 1)
      \<and> (\<forall>e. isRetryable opts = Some isNetworkRetryable \<longrightarrow>
            retriedBy opts e
            = (\<exists>m \<in> set retryableMessages.
                 includesStr (toLowerCase (message e)) (toLowerCase m)))"
proof -
  from withRetryLoop_trace [of opts 0 "maxRetries opts" fn None s "[]"]
  obtain outs s' where
    o: "withRetryLoop (traced fn) opts 0 None (s, []) = (rethrown (last outs), s', [] @ outs)"
      "withRetryLoop fn opts 0 None s = (rethrown (last outs), s')"
      "outs \<noteq> []" "length outs \<le> Suc (maxRetries opts)"
      "\<forall>r \<in> set (butlast outs). \<exists>e. r = Inl e \<and> retriedBy opts e"
      "\<forall>e. last outs = Inl e \<longrightarrow> \<not> retriedBy opts e \<or> length outs = Suc (maxRetries opts)"
    by auto
  have early: "\<forall>i e. i < length outs \<and> outs ! i = Inl e \<and> \<not> retriedBy opts e \<longrightarrow>
            Suc i = length outs \<and> fst (withRetry fn opts s) = Inl (Some e)"
  proof (intro allI impI)
    fix i e
    assume that: "i < length outs \<and> outs ! i = Inl e \<and> \<not> retriedBy opts e"
    have "\<not> i < length (butlast outs)"
    proof
      assume "i < length (butlast outs)"
      then have "butlast outs ! i \<in> set (butlast outs)" "butlast outs ! i = outs ! i"
        by (rule nth_mem, rule nth_butlast)
      with o(5) that show False
        by auto
    qed
    with that have i: "Suc i = length outs"
      by (simp add: not_less) arith
    have "last outs = outs ! (length outs - 1)"
      using o(3) by (rule last_conv_nth)
    also have "length outs - 1 = i"
      using i by simp
    finally have "last outs = Inl e"
      using that by simp
    with i o(2) show "Suc i = length outs \<and> fst (withRetry fn opts s) = Inl (Some e)"
      by (simp add: withRetry_def rethrown_def)
  qed
  have spent: "\<forall>e. length outs = maxRetries opts + 1 \<and> last outs = Inl e \<longrightarrow>
            fst (withRetry fn opts s) = Inl (Some e)"
    using o(2) by (simp add: withRetry_def rethrown_def)
  have classifier: "\<forall>e. isRetryable opts = Some isNetworkRetryable \<longrightarrow>
            retriedBy opts e
            = (\<exists>m \<in> set retryableMessages.
                 includesStr (toLowerCase (message e)) (toLowerCase m))"
    by (simp add: retriedBy_def isNetworkRetryable_iff)
  have a: "withRetry (traced fn) opts (s, []) = (rethrown (last outs), s', outs)"
    using o(1) by (simp add: withRetry_def)
  have b: "withRetry fn opts s = (rethrown (last outs), s')"
    using o(2) by (simp add: withRetry_def)
  have c: "1 \<le> length outs"
    using o(3) by (cases outs) simp_all
  have d: "length outs \<le> maxRetries opts + 1"
    using o(4) by simp
  have e: "\<forall>e. last outs = Inl e \<longrightarrow> \<not> retriedBy opts e \<or> length outs = maxRetries opts + 1"
    using o(6) by simp
  from a b c d o(5) early spent e classifier show ?thesis
    by (intro exI [of _ outs] exI [of _ s'] conjI)
qed

theorem withRetry_attempts_witness:
  "withRetry scripted (DEFAULT_OPTIONS\<lparr>maxRetries := 2, isRetryable := Some isNetworkRetryable\<rparr>)
     [Inl \<lparr>message = ''Navigation timeout of 30000 ms exceeded''\<rparr>,
      Inl \<lparr>message = ''Unexpected token < in JSON''\<rparr>, Inr (7 :: nat)]
   = (Inl (Some \<lparr>message = ''Unexpected token < in JSON''\<rparr>), [Inr 7])
   \<and> (\<exists>outs. snd (snd (withRetry (traced scripted)
          (DEFAULT_OPTIONS\<lparr>maxRetries := 2, isRetryable := Some isNetworkRetryable\<rparr>)
          ([Inl \<lparr>message = ''timeout 1''\<rparr>, Inl \<lparr>message = ''timeout 2''\<rparr>,
            Inl \<lparr>message = ''ETIMEDOUT''\<rparr>, Inr (7 :: nat)], []))) = outs
        \<and> length outs = 3
        \<and> fst (withRetry scripted
          (DEFAULT_OPTIONS\<lparr>maxRetries := 2, isRetryable := Some isNetworkRetryable\<rparr>)
          [Inl \<lparr>message = ''timeout 1''\<rparr>, Inl \<lparr>message = ''timeout 2''\<rparr>,
           Inl \<lparr>message = ''ETIMEDOUT''\<rparr>, Inr (7 :: nat)])
          = Inl (Some \<lparr>message = ''ETIMEDOUT''\<rparr>))"
proof -
  define opts where
    "opts = DEFAULT_OPTIONS\<lparr>maxRetries := 2, isRetryable := Some isNetworkRetryable\<rparr>"
  define script :: "(Error + nat) list" where
    "script = [Inl \<lparr>message = ''timeout 1''\<rparr>, Inl \<lparr>message = ''timeout 2''\<rparr>,
       Inl \<lparr>message = ''ETIMEDOUT''\<rparr>, Inr 7]"
  have bound: "maxRetries opts + 1 = 3"
    by (simp add: opts_def DEFAULT_OPTIONS_def)
  from withRetry_attempts [of scripted opts script] obtain outs s' where
    o: "withRetry (traced scripted) opts (script, []) = (rethrown (last outs), s', outs)"
      "withRetry scripted opts script = (rethrown (last outs), s')"
      "\<forall>e. length outs = maxRetries opts + 1 \<and> last outs = Inl e \<longrightarrow>
         fst (withRetry scripted opts script) = Inl (Some e)"
    by blast
  have run: "withRetry (traced scripted) opts (script, [])
      = (Inl (Some \<lparr>message = ''ETIMEDOUT''\<rparr>), [Inr 7],
         [Inl \<lparr>message = ''timeout 1''\<rparr>, Inl \<lparr>message = ''timeout 2''\<rparr>,
          Inl \<lparr>message = ''ETIMEDOUT''\<rparr>])"
    unfolding opts_def script_def by (rule timeouts_exhaust_budget)
  with o(1) have outs: "outs = [Inl \<lparr>message = ''timeout 1''\<rparr>, Inl \<lparr>message = ''timeout 2''\<rparr>,
          Inl \<lparr>message = ''ETIMEDOUT''\<rparr>]"
    by simp
  then have "length outs = maxRetries opts + 1 \<and> last outs = Inl \<lparr>message = ''ETIMEDOUT''\<rparr>"
    using bound by simp
  with o(3) have "fst (withRetry scripted opts script) = Inl (Some \<lparr>message = ''ETIMEDOUT''\<rparr>)"
    by blast
  with run outs have "snd (snd (withRetry (traced scripted) opts (script, []))) = outs
      \<and> length outs = 3
      \<and> fst (withRetry scripted opts script) = Inl (Some \<lparr>message = ''ETIMEDOUT''\<rparr>)"
    by simp
  then have "\<exists>outs. snd (snd (withRetry (traced scripted) opts (script, []))) = outs
      \<and> length outs = 3
      \<and> fst (withRetry scripted opts script) = Inl (Some \<lparr>message = ''ETIMEDOUT''\<rparr>)"
    by blast
  with parse_error_not_retried show ?thesis
    unfolding opts_def script_def by blast
qed

section \<open>Reconciliation of detail pages\<close>




















end
